theory Spec2Isabelle
  imports Complex_Main "HOL-Library.Multiset"
begin

section \<open>Street-network sampling: \<^verbatim>\<open>crear_muestra_calles.py\<close>\<close>

text \<open>
  The script reads a street network (nodes, edges, metadata) from a JSON file, selects a
  subset of the nodes (a random sample, or the nodes within a radius of a centre), keeps
  the edges whose two endpoints were both selected, writes the reduced dataset and prints
  its statistics.

  Conventions of the embedding:
  \<^item> a JSON object with fixed keys is a record; the \<^verbatim>\<open>metadata\<close> object, whose keys differ
    between the input and the two outputs, is an association list in insertion order;
  \<^item> node identifiers are an arbitrary type \<open>'i\<close> with its equality;
  \<^item> a value of Python's \<^verbatim>\<open>float\<close> is the real number it denotes (infinities and NaN are
    not values of the model). The operations on floats are not the operations on reals:
    each of them rounds. They are a parameter of the model, of which nothing is assumed
    unless a theorem says so;
  \<^item> the file system is a map from paths to the dataset stored there; a function that
    reads and writes returns its result together with the new file system. A stored
    dataset has the keys the script reads (a missing key or a malformed file is excluded
    by the types), and a write always succeeds;
  \<^item> an exception is a value \<open>Inl e\<close>; the statistics printed at the end of a run are the
    value \<open>Inr r\<close>;
  \<^item> a string is a list of bytes, a non-ASCII letter is written as its UTF-8 bytes.
\<close>

subsection \<open>Data\<close>

datatype py_error = FileNotFoundError | ValueError | ZeroDivisionError

datatype jvalue = JStr string | JInt int | JFloat real | JBool bool

record 'i node =
  node_id :: 'i
  lat :: real
  lon :: real
  elevation :: "real option"
  node_type :: string
  street_names :: "string list"

record 'i edge =
  edge_from :: 'i
  edge_to :: 'i
  weight :: real
  street_name :: string
  street_type :: string
  one_way :: bool
  max_speed :: real

text \<open>
  The \<^verbatim>\<open>description\<close> of an output is an f-string; it is kept as the template together
  with the values it interpolates.
\<close>

datatype descripcion =
    Texto string
  | Muestra_de_nodos int
  | Muestra_centrada real real real

record 'i dataset =
  description :: descripcion
  nodes :: "'i node list"
  edges :: "'i edge list"
  metadata :: "(string \<times> jvalue) list"

type_synonym 'i fs = "string \<rightharpoonup> 'i dataset"

text \<open>The four statistics lines printed after the file has been written.\<close>

record estadisticas =
  est_nodos :: nat
  est_aristas :: nat
  est_densidad :: real
  est_reduccion :: "real option"

definition culiacan :: string where
  "culiacan = ''Culiac'' @ [CHR 0xC3, CHR 0xA1] @ ''n, Sinaloa, M'' @ [CHR 0xC3, CHR 0xA9] @ ''xico''"

subsection \<open>The library function \<^verbatim>\<open>random.sample\<close>\<close>

text \<open>
  \<^verbatim>\<open>random.sample(population, k)\<close> belongs to Python's standard library. It raises
  \<^verbatim>\<open>ValueError\<close> unless \<open>0 \<le> k \<le> len(population)\<close>, and otherwise runs the selection loop
  \<^verbatim>\<open>
    pool = list(population)
    for i in range(k):
        j = randbelow(n - i)
        result[i] = pool[j]
        pool[j] = pool[n - i - 1]
  \<close>
  The generator is a parameter: \<open>rnd i\<close> is the raw number behind the \<open>i\<close>-th draw, reduced
  below the bound \<open>n - i\<close>. (For a large population the library picks positions with a
  rejection loop instead; the results are the same arrangements of \<open>k\<close> distinct
  positions.)
\<close>

function sample_pool :: "(nat \<Rightarrow> nat) \<Rightarrow> nat \<Rightarrow> nat \<Rightarrow> nat \<Rightarrow> 'a list \<Rightarrow> 'a list" where
  "sample_pool rnd n k i pool =
     (if i < k then
        (let j = rnd i mod (n - i)
         in pool ! j # sample_pool rnd n k (Suc i) (pool[j := pool ! (n - i - 1)]))
      else [])"
  by pat_completeness auto
termination
  by (relation "measure (\<lambda>(rnd, n, k, i, pool). k - i)") auto

declare sample_pool.simps [simp del]

definition random_sample :: "(nat \<Rightarrow> nat) \<Rightarrow> 'a list \<Rightarrow> int \<Rightarrow> py_error + 'a list" where
  "random_sample rnd population k =
     (let n = length population
      in if \<not> (0 \<le> k \<and> k \<le> int n) then Inl ValueError
         else Inr (sample_pool rnd n (nat k) 0 population))"

subsection \<open>Edge filter and selected identifiers\<close>

text \<open>\<^verbatim>\<open>{nodo['id'] for nodo in nodos}\<close>\<close>

definition ids_nodos :: "'i node list \<Rightarrow> 'i set" where
  "ids_nodos nodos = set (map node_id nodos)"

text \<open>
  The loop over \<^verbatim>\<open>data['edges']\<close> that appends to \<^verbatim>\<open>aristas_muestra\<close>
  (\<^verbatim>\<open>aristas_centro\<close> in the second function, with the same body); the third argument is
  the list built so far.
\<close>

fun filtrar_aristas :: "'i set \<Rightarrow> 'i edge list \<Rightarrow> 'i edge list \<Rightarrow> 'i edge list" where
  "filtrar_aristas ids [] aristas = aristas"
| "filtrar_aristas ids (arista # resto) aristas =
     (if edge_from arista \<in> ids \<and> edge_to arista \<in> ids
      then filtrar_aristas ids resto (aristas @ [arista])
      else filtrar_aristas ids resto aristas)"

subsection \<open>\<^verbatim>\<open>crear_muestra_calles\<close>\<close>

text \<open>The dictionary \<^verbatim>\<open>muestra\<close> built from the loaded data and the sampled nodes.\<close>

definition muestra_calles :: "'i dataset \<Rightarrow> int \<Rightarrow> 'i node list \<Rightarrow> 'i dataset" where
  "muestra_calles data max_nodos nodos_muestra =
     (let ids_nodos_muestra = ids_nodos nodos_muestra;
          aristas_muestra = filtrar_aristas ids_nodos_muestra (edges data) []
      in \<lparr> description = Muestra_de_nodos max_nodos,
           nodes = nodos_muestra,
           edges = aristas_muestra,
           metadata =
             [(''city'', JStr culiacan),
              (''source'', JStr ''OpenStreetMap via OSMnx''),
              (''extracted_date'', JStr ''2024-01-15''),
              (''total_nodes'', JInt (int (length nodos_muestra))),
              (''total_edges'', JInt (int (length aristas_muestra))),
              (''network_type'', JStr ''drive''),
              (''sample_size'', JInt max_nodos),
              (''original_nodes'', JInt (int (length (nodes data)))),
              (''original_edges'', JInt (int (length (edges data))))] \<rparr>)"

definition crear_muestra_calles ::
  "'i fs \<Rightarrow> string \<Rightarrow> string \<Rightarrow> int \<Rightarrow> (nat \<Rightarrow> nat) \<Rightarrow> (py_error + estadisticas) \<times> 'i fs" where
  "crear_muestra_calles fs archivo_original archivo_muestra max_nodos rnd =
     (case fs archivo_original of
        None \<Rightarrow> (Inl FileNotFoundError, fs)
      | Some data \<Rightarrow>
          (let nodos_originales = nodes data
           in case random_sample rnd nodos_originales
                     (min max_nodos (int (length nodos_originales))) of
                Inl e \<Rightarrow> (Inl e, fs)
              | Inr nodos_muestra \<Rightarrow>
                  (let muestra = muestra_calles data max_nodos nodos_muestra;
                       fs' = fs(archivo_muestra \<mapsto> muestra)
                   in if length nodos_muestra = 0 then (Inl ZeroDivisionError, fs')
                      else if length (nodes data) = 0 then (Inl ZeroDivisionError, fs')
                      else (Inr \<lparr> est_nodos = length nodos_muestra,
                                  est_aristas = length (edges muestra),
                                  est_densidad =
                                    real (length (edges muestra)) / real (length nodos_muestra),
                                  est_reduccion =
                                    Some (real (length nodos_muestra)
                                            / real (length (nodes data)) * 100) \<rparr>,
                            fs'))))"

subsection \<open>\<^verbatim>\<open>crear_muestra_centro\<close>\<close>

text \<open>
  The arithmetic of \<^verbatim>\<open>float\<close> that the distance uses: \<^verbatim>\<open>+\<close>, \<^verbatim>\<open>-\<close>, \<^verbatim>\<open>*\<close>, \<^verbatim>\<open>/\<close>, \<^verbatim>\<open>** 2\<close> and the
  functions \<^verbatim>\<open>radians\<close>, \<^verbatim>\<open>sin\<close>, \<^verbatim>\<open>cos\<close>, \<^verbatim>\<open>sqrt\<close>, \<^verbatim>\<open>asin\<close> of the \<^verbatim>\<open>math\<close> module, each with
  the rounding of the machine it runs on.
\<close>

record aritmetica =
  fl_add :: "real \<Rightarrow> real \<Rightarrow> real"
  fl_sub :: "real \<Rightarrow> real \<Rightarrow> real"
  fl_mul :: "real \<Rightarrow> real \<Rightarrow> real"
  fl_div :: "real \<Rightarrow> real \<Rightarrow> real"
  fl_pow2 :: "real \<Rightarrow> real"
  fl_radians :: "real \<Rightarrow> real"
  fl_sin :: "real \<Rightarrow> real"
  fl_cos :: "real \<Rightarrow> real"
  fl_sqrt :: "real \<Rightarrow> real"
  fl_asin :: "real \<Rightarrow> real"

text \<open>
  \<^verbatim>\<open>math.sqrt\<close> raises \<^verbatim>\<open>ValueError\<close> on a negative argument and \<^verbatim>\<open>math.asin\<close> on an argument
  outside \<open>[-1, 1]\<close>: the argument is a computed, rounded value.
\<close>

definition py_sqrt :: "aritmetica \<Rightarrow> real \<Rightarrow> py_error + real" where
  "py_sqrt ar x = (if x < 0 then Inl ValueError else Inr (fl_sqrt ar x))"

definition py_asin :: "aritmetica \<Rightarrow> real \<Rightarrow> py_error + real" where
  "py_asin ar x = (if x < - 1 \<or> 1 < x then Inl ValueError else Inr (fl_asin ar x))"

definition calcular_distancia ::
  "aritmetica \<Rightarrow> real \<Rightarrow> real \<Rightarrow> real \<Rightarrow> real \<Rightarrow> py_error + real" where
  "calcular_distancia ar lat1 lon1 lat2 lon2 =
     (let R = 6371000;
          dlat = fl_radians ar (fl_sub ar lat2 lat1);
          dlon = fl_radians ar (fl_sub ar lon2 lon1);
          a = fl_add ar
                (fl_pow2 ar (fl_sin ar (fl_div ar dlat 2)))
                (fl_mul ar
                   (fl_mul ar (fl_cos ar (fl_radians ar lat1)) (fl_cos ar (fl_radians ar lat2)))
                   (fl_pow2 ar (fl_sin ar (fl_div ar dlon 2))))
      in case py_sqrt ar a of
           Inl e \<Rightarrow> Inl e
         | Inr s \<Rightarrow> (case py_asin ar s of
                       Inl e \<Rightarrow> Inl e
                     | Inr t \<Rightarrow> (let c = fl_mul ar 2 t in Inr (fl_mul ar R c))))"

text \<open>
  The loop over \<^verbatim>\<open>data['nodes']\<close> that appends to \<^verbatim>\<open>nodos_centro\<close>; the last argument is
  the list built so far. An error of the distance ends the loop.
\<close>

fun filtrar_nodos ::
  "aritmetica \<Rightarrow> real \<Rightarrow> real \<Rightarrow> real \<Rightarrow> 'i node list \<Rightarrow> 'i node list
     \<Rightarrow> py_error + 'i node list" where
  "filtrar_nodos ar centro_lat centro_lon radio_metros [] nodos_centro = Inr nodos_centro"
| "filtrar_nodos ar centro_lat centro_lon radio_metros (nodo # resto) nodos_centro =
     (case calcular_distancia ar centro_lat centro_lon (lat nodo) (lon nodo) of
        Inl e \<Rightarrow> Inl e
      | Inr distancia \<Rightarrow>
          (if distancia \<le> radio_metros
           then filtrar_nodos ar centro_lat centro_lon radio_metros resto (nodos_centro @ [nodo])
           else filtrar_nodos ar centro_lat centro_lon radio_metros resto nodos_centro))"

text \<open>The dictionary \<^verbatim>\<open>muestra_centro\<close> built from the loaded data and the retained nodes.\<close>

definition muestra_centro ::
  "'i dataset \<Rightarrow> real \<Rightarrow> real \<Rightarrow> real \<Rightarrow> 'i node list \<Rightarrow> 'i dataset" where
  "muestra_centro data centro_lat centro_lon radio_km nodos_centro =
     (let ids_nodos_centro = ids_nodos nodos_centro;
          aristas_centro = filtrar_aristas ids_nodos_centro (edges data) []
      in \<lparr> description = Muestra_centrada centro_lat centro_lon radio_km,
           nodes = nodos_centro,
           edges = aristas_centro,
           metadata =
             [(''city'', JStr culiacan),
              (''source'', JStr ''OpenStreetMap via OSMnx''),
              (''extracted_date'', JStr ''2024-01-15''),
              (''total_nodes'', JInt (int (length nodos_centro))),
              (''total_edges'', JInt (int (length aristas_centro))),
              (''network_type'', JStr ''drive''),
              (''center_lat'', JFloat centro_lat),
              (''center_lon'', JFloat centro_lon),
              (''radius_km'', JFloat radio_km),
              (''original_nodes'', JInt (int (length (nodes data)))),
              (''original_edges'', JInt (int (length (edges data))))] \<rparr>)"

definition crear_muestra_centro ::
  "aritmetica \<Rightarrow> 'i fs \<Rightarrow> string \<Rightarrow> string \<Rightarrow> real \<Rightarrow> real \<Rightarrow> real
     \<Rightarrow> (py_error + estadisticas) \<times> 'i fs" where
  "crear_muestra_centro ar fs archivo_original archivo_muestra centro_lat centro_lon radio_km =
     (case fs archivo_original of
        None \<Rightarrow> (Inl FileNotFoundError, fs)
      | Some data \<Rightarrow>
          (let radio_metros = fl_mul ar radio_km 1000
           in case filtrar_nodos ar centro_lat centro_lon radio_metros (nodes data) [] of
                Inl e \<Rightarrow> (Inl e, fs)
              | Inr nodos_centro \<Rightarrow>
                  (let muestra = muestra_centro data centro_lat centro_lon radio_km nodos_centro;
                       fs' = fs(archivo_muestra \<mapsto> muestra)
                   in if length nodos_centro = 0 then (Inl ZeroDivisionError, fs')
                      else (Inr \<lparr> est_nodos = length nodos_centro,
                                  est_aristas = length (edges muestra),
                                  est_densidad =
                                    real (length (edges muestra)) / real (length nodos_centro),
                                  est_reduccion = None \<rparr>,
                            fs'))))"

subsection \<open>The haversine formula as the specification writes it\<close>

text \<open>
  \<open>a = sin\<^sup>2(\<Delta>lat/2) + cos(lat1) \<sqdot> cos(lat2) \<sqdot> sin\<^sup>2(\<Delta>lon/2)\<close>, \<open>d = 2 \<sqdot> R \<sqdot> asin(\<surd>a)\<close>, with
  \<open>R = 6371000\<close> metres and the angles, given in degrees, converted to radians; computed
  in the arithmetic \<open>ar\<close>.
\<close>

definition haversine_a :: "aritmetica \<Rightarrow> real \<Rightarrow> real \<Rightarrow> real \<Rightarrow> real \<Rightarrow> real" where
  "haversine_a ar lat1 lon1 lat2 lon2 =
     fl_add ar
       (fl_pow2 ar (fl_sin ar (fl_div ar (fl_radians ar (fl_sub ar lat2 lat1)) 2)))
       (fl_mul ar
          (fl_mul ar (fl_cos ar (fl_radians ar lat1)) (fl_cos ar (fl_radians ar lat2)))
          (fl_pow2 ar (fl_sin ar (fl_div ar (fl_radians ar (fl_sub ar lon2 lon1)) 2))))"

definition great_circle_distance :: "aritmetica \<Rightarrow> real \<Rightarrow> real \<Rightarrow> real \<Rightarrow> real \<Rightarrow> real" where
  "great_circle_distance ar lat1 lon1 lat2 lon2 =
     fl_mul ar (2 * 6371000) (fl_asin ar (fl_sqrt ar (haversine_a ar lat1 lon1 lat2 lon2)))"

subsection \<open>Laws of the arithmetic\<close>

text \<open>
  What the zero and the symmetry of the distance rest on. Binary floating point with
  rounding to nearest and the functions of the C library have these properties on finite
  values, compared as numbers: a difference changes sign when its operands are swapped;
  \<^verbatim>\<open>radians\<close>, halving and \<^verbatim>\<open>sin\<close> are odd; squaring is even; multiplication is commutative; the
  operations are exact at 0; and doubling is exact, so that \<open>(2 \<sqdot> R) \<sqdot> t\<close> and \<open>R \<sqdot> (2 \<sqdot> t)\<close> round
  alike.
\<close>

definition leyes_aritmetica :: "aritmetica \<Rightarrow> bool" where
  "leyes_aritmetica ar \<longleftrightarrow>
     (\<forall>x y. fl_sub ar y x = - fl_sub ar x y) \<and>
     (\<forall>x. fl_radians ar (- x) = - fl_radians ar x) \<and>
     (\<forall>x. fl_div ar (- x) 2 = - fl_div ar x 2) \<and>
     (\<forall>x. fl_sin ar (- x) = - fl_sin ar x) \<and>
     (\<forall>x. fl_pow2 ar (- x) = fl_pow2 ar x) \<and>
     (\<forall>x y. fl_mul ar x y = fl_mul ar y x) \<and>
     fl_pow2 ar 0 = 0 \<and>
     (\<forall>x. fl_mul ar x 0 = 0) \<and>
     fl_add ar 0 0 = 0 \<and>
     fl_sqrt ar 0 = 0 \<and>
     fl_asin ar 0 = 0 \<and>
     (\<forall>t. fl_mul ar (2 * 6371000) t = fl_mul ar 6371000 (fl_mul ar 2 t))"

subsection \<open>Two arithmetics\<close>

text \<open>The operations on the reals themselves, without rounding.\<close>

definition exacta :: aritmetica where
  "exacta =
     \<lparr> fl_add = (\<lambda>x y. x + y), fl_sub = (\<lambda>x y. x - y), fl_mul = (\<lambda>x y. x * y),
       fl_div = (\<lambda>x y. x / y), fl_pow2 = (\<lambda>x. x\<^sup>2), fl_radians = (\<lambda>x. x * pi / 180),
       fl_sin = sin, fl_cos = cos, fl_sqrt = sqrt, fl_asin = arcsin \<rparr>"

text \<open>
  The same with an addition that errs upwards by \<open>4 \<sqdot> 10\<^sup>-\<^sup>1\<^sup>6\<close>, as rounding can: the
  haversine term of two antipodal points then exceeds 1.
\<close>

definition hacia_arriba :: aritmetica where
  "hacia_arriba = exacta \<lparr> fl_add := (\<lambda>x y. x + y + 4 / 10 ^ 16) \<rparr>"

subsection \<open>A small network\<close>

text \<open>
  Three intersections on the equator: \<open>A\<close> at longitude 0, \<open>B\<close> a hundredth of a degree
  east of it and \<open>Z\<close> at the antipode of \<open>A\<close>, with road segments \<open>A\<rightarrow>B\<close>, \<open>B\<rightarrow>Z\<close> and
  \<open>A\<rightarrow>Z\<close>, in the shape the extraction script writes, for another city.
\<close>

definition nodo :: "nat \<Rightarrow> real \<Rightarrow> real \<Rightarrow> nat node" where
  "nodo i la lo =
     \<lparr> node_id = i, lat = la, lon = lo, elevation = None,
       node_type = ''intersection'', street_names = [] \<rparr>"

definition arista :: "nat \<Rightarrow> nat \<Rightarrow> nat edge" where
  "arista u v =
     \<lparr> edge_from = u, edge_to = v, weight = 0, street_name = ''Sin nombre'',
       street_type = ''unknown'', one_way = False, max_speed = 50 \<rparr>"

definition ejemplo :: "nat dataset" where
  "ejemplo =
     \<lparr> description = Texto ''Red de calles'',
       nodes = [nodo 1 0 0, nodo 2 0 (1 / 100), nodo 3 0 180],
       edges = [arista 1 2, arista 2 3, arista 1 3],
       metadata =
         [(''city'', JStr ''Mazatlan, Sinaloa, Mexico''),
          (''source'', JStr ''OpenStreetMap via OSMnx''),
          (''extracted_date'', JStr ''2024-01-15''),
          (''total_nodes'', JInt 3),
          (''total_edges'', JInt 3),
          (''network_type'', JStr ''drive''),
          (''simplified'', JBool True)] \<rparr>"

text \<open>A network that consists of the intersection \<open>Z\<close> alone.\<close>

definition antipoda :: "nat dataset" where
  "antipoda =
     \<lparr> description = Texto ''Red de calles'',
       nodes = [nodo 3 0 180],
       edges = [],
       metadata =
         [(''city'', JStr ''Mazatlan, Sinaloa, Mexico''),
          (''source'', JStr ''OpenStreetMap via OSMnx''),
          (''extracted_date'', JStr ''2024-01-15''),
          (''total_nodes'', JInt 1),
          (''total_edges'', JInt 0),
          (''network_type'', JStr ''drive''),
          (''simplified'', JBool True)] \<rparr>"

definition ejemplo_fs :: "nat fs" where
  "ejemplo_fs = [''calles.json'' \<mapsto> ejemplo, ''antipoda.json'' \<mapsto> antipoda]"

text \<open>A generator whose every draw is 0.\<close>

definition rnd_cero :: "nat \<Rightarrow> nat" where
  "rnd_cero i = 0"

section \<open>Properties\<close>

subsection \<open>The edge filter\<close>

lemma filtrar_aristas_filter:
  "filtrar_aristas ids es acc = acc @ filter (\<lambda>e. edge_from e \<in> ids \<and> edge_to e \<in> ids) es"
  by (induction es arbitrary: acc) simp_all

subsection \<open>The sampling loop\<close>

lemma take_pool_step:
  assumes "j < m" "m \<le> length pool"
  shows "add_mset (pool ! j) (mset (take (m - 1) (pool[j := pool ! (m - 1)]))) = mset (take m pool)"
proof -
  from assms have m: "0 < m" "m - 1 < length pool" by auto
  have tk: "take m pool = take (m - 1) pool @ [pool ! (m - 1)]"
    using m take_Suc_conv_app_nth [of "m - 1" pool] by simp
  show ?thesis
  proof (cases "j = m - 1")
    case True
    then show ?thesis using tk by simp
  next
    case False
    with assms have j: "j < m - 1" by simp
    then have jl: "j < length (take (m - 1) pool)" using m by simp
    have "take (m - 1) (pool[j := pool ! (m - 1)]) = (take (m - 1) pool)[j := pool ! (m - 1)]"
      using j by (simp add: take_update_swap)
    moreover have "(take (m - 1) pool) ! j = pool ! j" using j by simp
    moreover have "pool ! j \<in># mset (take (m - 1) pool)"
      using jl nth_mem [OF jl] by simp
    ultimately show ?thesis using tk jl by (simp add: mset_update)
  qed
qed

lemma sample_pool_props:
  "i \<le> k \<Longrightarrow> k \<le> n \<Longrightarrow> n \<le> length pool \<Longrightarrow>
     length (sample_pool rnd n k i pool) = k - i \<and>
     mset (sample_pool rnd n k i pool) \<subseteq># mset (take (n - i) pool) \<and>
     (k = n \<longrightarrow> mset (sample_pool rnd n k i pool) = mset (take (n - i) pool))"
proof (induction rnd n k i pool rule: sample_pool.induct)
  case (1 rnd n k i pool)
  show ?case
  proof (cases "i < k")
    case False
    then have "sample_pool rnd n k i pool = []"
      by (subst sample_pool.simps) simp
    with False "1.prems" show ?thesis by auto
  next
    case True
    define j where "j = rnd i mod (n - i)"
    define pool' where "pool' = pool[j := pool ! (n - i - 1)]"
    from True "1.prems" have jlt: "j < n - i" by (simp add: j_def)
    have IH: "length (sample_pool rnd n k (Suc i) pool') = k - Suc i \<and>
              mset (sample_pool rnd n k (Suc i) pool') \<subseteq># mset (take (n - Suc i) pool') \<and>
              (k = n \<longrightarrow> mset (sample_pool rnd n k (Suc i) pool') = mset (take (n - Suc i) pool'))"
      using "1.IH" [OF True j_def] True "1.prems" by (simp add: pool'_def)
    have unf: "sample_pool rnd n k i pool = pool ! j # sample_pool rnd n k (Suc i) pool'"
      using True by (simp add: sample_pool.simps [of rnd n k i pool] j_def pool'_def Let_def)
    have step: "add_mset (pool ! j) (mset (take (n - Suc i) pool')) = mset (take (n - i) pool)"
      using take_pool_step [of j "n - i" pool] jlt "1.prems" by (simp add: pool'_def)
    show ?thesis
      using IH True unf step by (auto simp flip: step)
  qed
qed

subsection \<open>The distance, in any arithmetic\<close>

lemma calcular_distancia_casos:
  "calcular_distancia ar lat1 lon1 lat2 lon2 =
     (if haversine_a ar lat1 lon1 lat2 lon2 < 0
         \<or> fl_sqrt ar (haversine_a ar lat1 lon1 lat2 lon2) < - 1
         \<or> 1 < fl_sqrt ar (haversine_a ar lat1 lon1 lat2 lon2)
      then Inl ValueError
      else Inr (fl_mul ar 6371000
                  (fl_mul ar 2 (fl_asin ar (fl_sqrt ar (haversine_a ar lat1 lon1 lat2 lon2))))))"
  by (simp add: calcular_distancia_def haversine_a_def py_sqrt_def py_asin_def Let_def)

lemma calcular_distancia_error:
  "calcular_distancia ar lat1 lon1 lat2 lon2 = Inl e \<Longrightarrow> e = ValueError"
  by (simp add: calcular_distancia_casos split: if_splits)

lemma leyes_signo:
  assumes "leyes_aritmetica ar"
  shows "fl_sub ar y x = - fl_sub ar x y"
    and "fl_radians ar (- x) = - fl_radians ar x"
    and "fl_div ar (- x) 2 = - fl_div ar x 2"
    and "fl_sin ar (- x) = - fl_sin ar x"
    and "fl_pow2 ar (- x) = fl_pow2 ar x"
    and "fl_mul ar x y = fl_mul ar y x"
  using assms unfolding leyes_aritmetica_def by blast+

lemma leyes_en_cero:
  assumes "leyes_aritmetica ar"
  shows "fl_pow2 ar 0 = 0"
    and "fl_mul ar x 0 = 0"
    and "fl_add ar 0 0 = 0"
    and "fl_sqrt ar 0 = 0"
    and "fl_asin ar 0 = 0"
  using assms unfolding leyes_aritmetica_def by blast+

lemma leyes_doble:
  assumes "leyes_aritmetica ar"
  shows "fl_mul ar (2 * 6371000) t = fl_mul ar 6371000 (fl_mul ar 2 t)"
  using assms unfolding leyes_aritmetica_def by blast

lemma leyes_cero:
  assumes "leyes_aritmetica ar"
  shows "fl_sub ar x x = 0" "fl_radians ar 0 = 0" "fl_div ar 0 2 = 0" "fl_sin ar 0 = 0"
proof -
  have "fl_sub ar x x = - fl_sub ar x x" by (rule leyes_signo(1) [OF assms])
  then show "fl_sub ar x x = 0" by linarith
  have "fl_radians ar (- 0) = - fl_radians ar 0" by (rule leyes_signo(2) [OF assms])
  then show "fl_radians ar 0 = 0" by simp
  have "fl_div ar (- 0) 2 = - fl_div ar 0 2" by (rule leyes_signo(3) [OF assms])
  then show "fl_div ar 0 2 = 0" by simp
  have "fl_sin ar (- 0) = - fl_sin ar 0" by (rule leyes_signo(4) [OF assms])
  then show "fl_sin ar 0 = 0" by simp
qed

lemma haversine_a_mismo:
  assumes "leyes_aritmetica ar"
  shows "haversine_a ar lat1 lon1 lat1 lon1 = 0"
  by (simp add: haversine_a_def leyes_cero [OF assms] leyes_en_cero [OF assms])

lemma medio_seno_cuadrado:
  assumes "leyes_aritmetica ar"
  shows "fl_pow2 ar (fl_sin ar (fl_div ar (fl_radians ar (fl_sub ar y x)) 2))
           = fl_pow2 ar (fl_sin ar (fl_div ar (fl_radians ar (fl_sub ar x y)) 2))"
proof -
  have "fl_sin ar (fl_div ar (fl_radians ar (fl_sub ar y x)) 2)
          = - fl_sin ar (fl_div ar (fl_radians ar (fl_sub ar x y)) 2)"
    by (simp only: leyes_signo(1) [OF assms, of y x] leyes_signo(2-4) [OF assms])
  then show ?thesis by (simp only: leyes_signo(5) [OF assms])
qed

lemma haversine_a_simetrica:
  assumes "leyes_aritmetica ar"
  shows "haversine_a ar lat1 lon1 lat2 lon2 = haversine_a ar lat2 lon2 lat1 lon1"
  unfolding haversine_a_def
  by (simp only: medio_seno_cuadrado [OF assms, of lat2 lat1]
        medio_seno_cuadrado [OF assms, of lon2 lon1]
        leyes_signo(6) [OF assms, of "fl_cos ar (fl_radians ar lat1)"
                                      "fl_cos ar (fl_radians ar lat2)"])

lemma calcular_distancia_mismo:
  assumes "leyes_aritmetica ar"
  shows "calcular_distancia ar lat1 lon1 lat1 lon1 = Inr 0"
  by (simp add: calcular_distancia_casos haversine_a_mismo [OF assms] leyes_en_cero [OF assms])

lemma calcular_distancia_simetrica:
  assumes "leyes_aritmetica ar"
  shows "calcular_distancia ar lat1 lon1 lat2 lon2 = calcular_distancia ar lat2 lon2 lat1 lon1"
  by (simp only: calcular_distancia_casos haversine_a_simetrica [OF assms, of lat1 lon1 lat2 lon2])

lemma calcular_distancia_spec:
  assumes "leyes_aritmetica ar"
  shows "calcular_distancia ar lat1 lon1 lat2 lon2 =
     (if haversine_a ar lat1 lon1 lat2 lon2 < 0
         \<or> fl_sqrt ar (haversine_a ar lat1 lon1 lat2 lon2) < - 1
         \<or> 1 < fl_sqrt ar (haversine_a ar lat1 lon1 lat2 lon2)
      then Inl ValueError
      else Inr (great_circle_distance ar lat1 lon1 lat2 lon2))"
  by (simp only: calcular_distancia_casos great_circle_distance_def leyes_doble [OF assms])

subsection \<open>The node loop, in any arithmetic\<close>

lemma filtrar_nodos_spec:
  "filtrar_nodos ar clat clon rm ns acc =
     (if \<forall>n \<in> set ns. \<exists>d. calcular_distancia ar clat clon (lat n) (lon n) = Inr d
      then Inr (acc @ filter (\<lambda>n. \<exists>d. calcular_distancia ar clat clon (lat n) (lon n) = Inr d
                                      \<and> d \<le> rm) ns)
      else Inl ValueError)"
proof (induction ns arbitrary: acc)
  case Nil
  show ?case by simp
next
  case (Cons n ns)
  show ?case
  proof (cases "calcular_distancia ar clat clon (lat n) (lon n)")
    case (Inl e)
    then have "e = ValueError" by (rule calcular_distancia_error)
    with Inl show ?thesis by simp
  next
    case (Inr d)
    then show ?thesis by (auto simp add: Cons.IH)
  qed
qed

subsection \<open>The distance, in the exact arithmetic\<close>

lemma exacta_ops:
  "fl_add exacta x y = x + y" "fl_sub exacta x y = x - y" "fl_mul exacta x y = x * y"
  "fl_div exacta x y = x / y" "fl_pow2 exacta x = x\<^sup>2" "fl_radians exacta x = x * pi / 180"
  "fl_sin exacta x = sin x" "fl_cos exacta x = cos x" "fl_sqrt exacta x = sqrt x"
  "fl_asin exacta x = arcsin x"
  by (simp_all add: exacta_def)

lemma leyes_exacta: "leyes_aritmetica exacta"
  by (simp add: leyes_aritmetica_def exacta_ops)

lemma haversine_a_exacta:
  "haversine_a exacta lat1 lon1 lat2 lon2 =
     (sin ((lat2 * pi / 180 - lat1 * pi / 180) / 2))\<^sup>2
       + cos (lat1 * pi / 180) * cos (lat2 * pi / 180)
           * (sin ((lon2 * pi / 180 - lon1 * pi / 180) / 2))\<^sup>2"
  by (simp add: haversine_a_def exacta_ops diff_divide_distrib left_diff_distrib)

lemma great_circle_distance_exacta:
  "great_circle_distance exacta lat1 lon1 lat2 lon2 =
     2 * 6371000 * arcsin (sqrt (haversine_a exacta lat1 lon1 lat2 lon2))"
  by (simp add: great_circle_distance_def exacta_ops)

lemma sin_half_squared: "(sin (x / 2))\<^sup>2 = (1 - cos x) / (2::real)"
  using cos_double_sin [of "x / 2"] by simp

lemma cos_times_cos: "cos p * cos q = (cos (q - p) + cos (p + q)) / (2::real)"
  by (simp add: cos_add cos_diff)

lemma haversine_a_mix:
  "haversine_a exacta lat1 lon1 lat2 lon2 =
     (1 - cos (lat2 * pi / 180 - lat1 * pi / 180)) / 2
       + (cos (lat2 * pi / 180 - lat1 * pi / 180) + cos (lat1 * pi / 180 + lat2 * pi / 180)) / 2
           * (sin ((lon2 * pi / 180 - lon1 * pi / 180) / 2))\<^sup>2"
  unfolding haversine_a_exacta sin_half_squared [of "lat2 * pi / 180 - lat1 * pi / 180"]
    cos_times_cos [of "lat1 * pi / 180" "lat2 * pi / 180"] ..

lemma mix_bounds:
  fixes s C D :: real
  assumes "0 \<le> s" "s \<le> 1" "- 1 \<le> C" "C \<le> 1" "- 1 \<le> D" "D \<le> 1"
  shows "0 \<le> (1 - C) / 2 + (C + D) / 2 * s" and "(1 - C) / 2 + (C + D) / 2 * s \<le> 1"
proof -
  have e: "(1 - C) / 2 + (C + D) / 2 * s = (1 - (1 - s) * C + s * D) / 2"
    by (simp add: field_simps)
  have c1: "(1 - s) * C \<le> (1 - s) * 1" using assms by (intro mult_left_mono) auto
  have c2: "(1 - s) * (- 1) \<le> (1 - s) * C" using assms by (intro mult_left_mono) auto
  have d1: "s * D \<le> s * 1" using assms by (intro mult_left_mono) auto
  have d2: "s * (- 1) \<le> s * D" using assms by (intro mult_left_mono) auto
  show "0 \<le> (1 - C) / 2 + (C + D) / 2 * s" unfolding e using c1 d2 by simp
  show "(1 - C) / 2 + (C + D) / 2 * s \<le> 1" unfolding e using c2 d1 by simp
qed

lemma haversine_a_bounds:
  "0 \<le> haversine_a exacta lat1 lon1 lat2 lon2" "haversine_a exacta lat1 lon1 lat2 lon2 \<le> 1"
proof -
  have s: "0 \<le> (sin ((lon2 * pi / 180 - lon1 * pi / 180) / 2))\<^sup>2"
          "(sin ((lon2 * pi / 180 - lon1 * pi / 180) / 2))\<^sup>2 \<le> 1"
    by (simp_all add: abs_square_le_1 abs_sin_le_one)
  show "0 \<le> haversine_a exacta lat1 lon1 lat2 lon2"
    unfolding haversine_a_mix by (rule mix_bounds(1) [OF s]) simp_all
  show "haversine_a exacta lat1 lon1 lat2 lon2 \<le> 1"
    unfolding haversine_a_mix by (rule mix_bounds(2) [OF s]) simp_all
qed

lemma great_circle_distance_same: "great_circle_distance exacta lat1 lon1 lat1 lon1 = 0"
  by (simp add: great_circle_distance_exacta haversine_a_exacta)

lemma sin_half_diff_sq: "(sin ((x - y) / 2))\<^sup>2 = (sin ((y - x) / 2))\<^sup>2" for x y :: real
proof -
  have "(x - y) / 2 = - ((y - x) / 2)" by (simp add: field_simps)
  then have "sin ((x - y) / 2) = - sin ((y - x) / 2)" by (simp only: sin_minus)
  then show ?thesis by simp
qed

lemma haversine_a_sym: "haversine_a exacta lat1 lon1 lat2 lon2 = haversine_a exacta lat2 lon2 lat1 lon1"
  unfolding haversine_a_exacta
  by (simp only: sin_half_diff_sq [of "lat2 * pi / 180" "lat1 * pi / 180"]
        sin_half_diff_sq [of "lon2 * pi / 180" "lon1 * pi / 180"]
        mult.commute [of "cos (lat1 * pi / 180)"])

lemma great_circle_distance_sym:
  "great_circle_distance exacta lat1 lon1 lat2 lon2 = great_circle_distance exacta lat2 lon2 lat1 lon1"
  by (simp add: great_circle_distance_exacta haversine_a_sym [of lat1 lon1 lat2 lon2])

lemma great_circle_distance_nonneg: "0 \<le> great_circle_distance exacta lat1 lon1 lat2 lon2"
proof -
  have "0 \<le> sqrt (haversine_a exacta lat1 lon1 lat2 lon2)" "sqrt (haversine_a exacta lat1 lon1 lat2 lon2) \<le> 1"
    using haversine_a_bounds [of lat1 lon1 lat2 lon2] by simp_all
  then have "arcsin 0 \<le> arcsin (sqrt (haversine_a exacta lat1 lon1 lat2 lon2))"
    by (intro arcsin_le_arcsin) simp_all
  then show ?thesis by (simp add: great_circle_distance_exacta)
qed

lemma great_circle_distance_antipode: "great_circle_distance exacta 0 0 0 180 = 6371000 * pi"
  by (simp add: great_circle_distance_exacta haversine_a_exacta)

lemma calcular_distancia_exacta:
  "calcular_distancia exacta lat1 lon1 lat2 lon2
     = Inr (great_circle_distance exacta lat1 lon1 lat2 lon2)"
proof -
  have r: "0 \<le> sqrt (haversine_a exacta lat1 lon1 lat2 lon2)"
          "sqrt (haversine_a exacta lat1 lon1 lat2 lon2) \<le> 1"
    using haversine_a_bounds [of lat1 lon1 lat2 lon2] by simp_all
  have n: "\<not> haversine_a exacta lat1 lon1 lat2 lon2 < 0"
    using haversine_a_bounds(1) [of lat1 lon1 lat2 lon2] by simp
  have r': "\<not> fl_sqrt exacta (haversine_a exacta lat1 lon1 lat2 lon2) < - 1"
           "\<not> 1 < fl_sqrt exacta (haversine_a exacta lat1 lon1 lat2 lon2)"
    unfolding exacta_ops using r by linarith+
  show ?thesis
    by (simp only: calcular_distancia_spec [OF leyes_exacta] n r' simp_thms if_False)
qed

lemma filtrar_nodos_exacta:
  "filtrar_nodos exacta clat clon rm ns acc =
     Inr (acc @ filter (\<lambda>n. great_circle_distance exacta clat clon (lat n) (lon n) \<le> rm) ns)"
  by (induction ns arbitrary: acc) (simp_all add: calcular_distancia_exacta)

subsection \<open>The distance, when the addition errs upwards\<close>

lemma calcular_distancia_hacia_arriba:
  "calcular_distancia hacia_arriba 0 0 0 180 = Inl ValueError"
proof -
  have a: "haversine_a hacia_arriba 0 0 0 180 = 1 + 4 / 10 ^ 16"
    by (simp add: haversine_a_def hacia_arriba_def exacta_def)
  have s: "1 < fl_sqrt hacia_arriba (1 + 4 / 10 ^ 16)"
    by (simp add: hacia_arriba_def exacta_def)
  show ?thesis
    by (simp only: calcular_distancia_casos a s simp_thms if_True)
qed

subsection \<open>The two pipelines\<close>

lemma random_sample_ok:
  assumes "0 \<le> max_nodos"
  shows "\<exists>ns. random_sample rnd nodos (min max_nodos (int (length nodos))) = Inr ns \<and>
              int (length ns) = min max_nodos (int (length nodos)) \<and>
              mset ns \<subseteq># mset nodos \<and>
              (int (length nodos) \<le> max_nodos \<longrightarrow> mset ns = mset nodos)"
proof -
  define k where "k = nat (min max_nodos (int (length nodos)))"
  have k: "int k = min max_nodos (int (length nodos))" "k \<le> length nodos"
    using assms by (simp_all add: k_def)
  have rs: "random_sample rnd nodos (min max_nodos (int (length nodos)))
              = Inr (sample_pool rnd (length nodos) k 0 nodos)"
    using assms by (simp add: random_sample_def k_def Let_def)
  have p: "length (sample_pool rnd (length nodos) k 0 nodos) = k - 0 \<and>
           mset (sample_pool rnd (length nodos) k 0 nodos) \<subseteq># mset (take (length nodos - 0) nodos) \<and>
           (k = length nodos \<longrightarrow>
              mset (sample_pool rnd (length nodos) k 0 nodos) = mset (take (length nodos - 0) nodos))"
    using k(2) by (intro sample_pool_props) simp_all
  have full: "int (length nodos) \<le> max_nodos \<Longrightarrow> k = length nodos"
    by (simp add: k_def)
  show ?thesis
    using rs p k(1) full by auto
qed

lemma crear_muestra_calles_escribe:
  assumes "fs archivo_original = Some data"
    and "random_sample rnd (nodes data) (min max_nodos (int (length (nodes data)))) = Inr ns"
  shows "snd (crear_muestra_calles fs archivo_original archivo_muestra max_nodos rnd) archivo_muestra
           = Some (muestra_calles data max_nodos ns)"
  using assms by (simp add: crear_muestra_calles_def Let_def)

lemma crear_muestra_centro_escribe:
  assumes "fs archivo_original = Some data"
    and "filtrar_nodos ar centro_lat centro_lon (fl_mul ar radio_km 1000) (nodes data) [] = Inr ns"
  shows "snd (crear_muestra_centro ar fs archivo_original archivo_muestra
                centro_lat centro_lon radio_km) archivo_muestra
           = Some (muestra_centro data centro_lat centro_lon radio_km ns)"
  using assms by (simp add: crear_muestra_centro_def Let_def)

lemma crear_muestra_centro_falla:
  assumes "fs archivo_original = Some data"
    and "filtrar_nodos ar centro_lat centro_lon (fl_mul ar radio_km 1000) (nodes data) [] = Inl e"
  shows "crear_muestra_centro ar fs archivo_original archivo_muestra centro_lat centro_lon radio_km
           = (Inl e, fs)"
  using assms by (simp add: crear_muestra_centro_def Let_def)

lemma crear_muestra_centro_casos:
  assumes "fs archivo_original = Some data"
  shows "crear_muestra_centro ar fs archivo_original archivo_muestra centro_lat centro_lon radio_km
           = (Inl ValueError, fs)
         \<or> (\<exists>ns. filtrar_nodos ar centro_lat centro_lon (fl_mul ar radio_km 1000) (nodes data) []
                    = Inr ns
                 \<and> snd (crear_muestra_centro ar fs archivo_original archivo_muestra
                          centro_lat centro_lon radio_km) archivo_muestra
                    = Some (muestra_centro data centro_lat centro_lon radio_km ns))"
proof (cases "filtrar_nodos ar centro_lat centro_lon (fl_mul ar radio_km 1000) (nodes data) []")
  case (Inl e)
  then have "e = ValueError" by (simp add: filtrar_nodos_spec split: if_splits)
  with Inl assms show ?thesis by (simp add: crear_muestra_centro_falla)
next
  case (Inr ns)
  with assms show ?thesis by (simp add: crear_muestra_centro_escribe)
qed

lemma crear_muestra_centro_exacta:
  assumes "fs archivo_original = Some data"
  shows "snd (crear_muestra_centro exacta fs archivo_original archivo_muestra
                centro_lat centro_lon radio_km) archivo_muestra
           = Some (muestra_centro data centro_lat centro_lon radio_km
                     (filter (\<lambda>n. great_circle_distance exacta centro_lat centro_lon (lat n) (lon n)
                                     \<le> radio_km * 1000) (nodes data)))"
  using assms by (simp add: crear_muestra_centro_def Let_def filtrar_nodos_exacta exacta_ops)

lemma edges_muestra_calles:
  "edges (muestra_calles data max_nodos ns) =
     filter (\<lambda>e. edge_from e \<in> ids_nodos ns \<and> edge_to e \<in> ids_nodos ns) (edges data)"
  by (simp add: muestra_calles_def Let_def filtrar_aristas_filter)

lemma nodes_muestra_calles: "nodes (muestra_calles data max_nodos ns) = ns"
  by (simp add: muestra_calles_def Let_def)

lemma edges_muestra_centro:
  "edges (muestra_centro data clat clon r ns) =
     filter (\<lambda>e. edge_from e \<in> ids_nodos ns \<and> edge_to e \<in> ids_nodos ns) (edges data)"
  by (simp add: muestra_centro_def Let_def filtrar_aristas_filter)

lemma nodes_muestra_centro: "nodes (muestra_centro data clat clon r ns) = ns"
  by (simp add: muestra_centro_def Let_def)

lemma counts_muestra_calles:
  "map_of (metadata (muestra_calles data max_nodos ns)) ''total_nodes''
     = Some (JInt (int (length (nodes (muestra_calles data max_nodos ns)))))"
  "map_of (metadata (muestra_calles data max_nodos ns)) ''total_edges''
     = Some (JInt (int (length (edges (muestra_calles data max_nodos ns)))))"
  by (simp_all add: muestra_calles_def Let_def)

lemma counts_muestra_centro:
  "map_of (metadata (muestra_centro data clat clon r ns)) ''total_nodes''
     = Some (JInt (int (length (nodes (muestra_centro data clat clon r ns)))))"
  "map_of (metadata (muestra_centro data clat clon r ns)) ''total_edges''
     = Some (JInt (int (length (edges (muestra_centro data clat clon r ns)))))"
  by (simp_all add: muestra_centro_def Let_def)

lemma static_muestra_calles:
  "map_of (metadata (muestra_calles data max_nodos ns)) ''city'' = Some (JStr culiacan)"
  "map_of (metadata (muestra_calles data max_nodos ns)) ''source'' = Some (JStr ''OpenStreetMap via OSMnx'')"
  "map_of (metadata (muestra_calles data max_nodos ns)) ''extracted_date'' = Some (JStr ''2024-01-15'')"
  "map_of (metadata (muestra_calles data max_nodos ns)) ''network_type'' = Some (JStr ''drive'')"
  by (simp_all add: muestra_calles_def Let_def)

lemma static_muestra_centro:
  "map_of (metadata (muestra_centro data clat clon r ns)) ''city'' = Some (JStr culiacan)"
  "map_of (metadata (muestra_centro data clat clon r ns)) ''source'' = Some (JStr ''OpenStreetMap via OSMnx'')"
  "map_of (metadata (muestra_centro data clat clon r ns)) ''extracted_date'' = Some (JStr ''2024-01-15'')"
  "map_of (metadata (muestra_centro data clat clon r ns)) ''network_type'' = Some (JStr ''drive'')"
  by (simp_all add: muestra_centro_def Let_def)

lemma params_muestra_calles:
  "map_of (metadata (muestra_calles data max_nodos ns)) ''sample_size'' = Some (JInt max_nodos)"
  "map_of (metadata (muestra_calles data max_nodos ns)) ''original_nodes'' = Some (JInt (int (length (nodes data))))"
  "map_of (metadata (muestra_calles data max_nodos ns)) ''original_edges'' = Some (JInt (int (length (edges data))))"
  by (simp_all add: muestra_calles_def Let_def)

lemma params_muestra_centro:
  "map_of (metadata (muestra_centro data clat clon r ns)) ''center_lat'' = Some (JFloat clat)"
  "map_of (metadata (muestra_centro data clat clon r ns)) ''center_lon'' = Some (JFloat clon)"
  "map_of (metadata (muestra_centro data clat clon r ns)) ''radius_km'' = Some (JFloat r)"
  by (simp_all add: muestra_centro_def Let_def)

subsection \<open>The small network, evaluated\<close>

lemma ejemplo_sample2:
  "random_sample rnd_cero (nodes ejemplo) (min 2 (int (length (nodes ejemplo))))
     = Inr [nodo 1 0 0, nodo 3 0 180]"
  by (simp add: random_sample_def ejemplo_def sample_pool.simps rnd_cero_def)

lemma ejemplo_sample0:
  "random_sample rnd_cero (nodes ejemplo) (min 0 (int (length (nodes ejemplo)))) = Inr []"
  by (simp add: random_sample_def ejemplo_def sample_pool.simps rnd_cero_def)

lemma equator_distance:
  assumes "0 \<le> l" "l \<le> 180"
  shows "great_circle_distance exacta 0 0 0 l = 6371000 * (l * pi / 180)"
proof -
  define x where "x = l * pi / 180 / 2"
  have x: "0 \<le> x" "x \<le> pi / 2" using assms by (simp_all add: x_def field_simps)
  have "haversine_a exacta 0 0 0 l = (sin x)\<^sup>2" by (simp add: haversine_a_exacta x_def)
  moreover have "0 \<le> sin x" using x by (intro sin_ge_zero) (use pi_ge_zero in linarith)+
  ultimately have "sqrt (haversine_a exacta 0 0 0 l) = sin x" by simp
  moreover have "arcsin (sin x) = x" using x by (intro arcsin_sin) simp_all
  ultimately have "arcsin (sqrt (haversine_a exacta 0 0 0 l)) = l * pi / 180 / 2"
    by (simp only: x_def)
  then show ?thesis by (simp only: great_circle_distance_exacta)
qed

lemma ejemplo_dist:
  "great_circle_distance exacta 0 0 0 0 \<le> 5000"
  "great_circle_distance exacta 0 0 0 (1 / 100) \<le> 5000"
  "\<not> great_circle_distance exacta 0 0 0 180 \<le> 5000"
proof -
  show "great_circle_distance exacta 0 0 0 0 \<le> 5000" by (simp add: great_circle_distance_same)
  have "great_circle_distance exacta 0 0 0 (1 / 100) = 6371000 * ((1 / 100) * pi / 180)"
    by (rule equator_distance) simp_all
  then show "great_circle_distance exacta 0 0 0 (1 / 100) \<le> 5000" using pi_less_4 by simp
  show "\<not> great_circle_distance exacta 0 0 0 180 \<le> 5000"
    using pi_ge_two by (simp add: great_circle_distance_antipode)
qed

lemma ejemplo_radio5:
  "filter (\<lambda>n. great_circle_distance exacta 0 0 (lat n) (lon n) \<le> 5 * 1000) (nodes ejemplo)
     = [nodo 1 0 0, nodo 2 0 (1 / 100)]"
  using ejemplo_dist by (simp add: ejemplo_def nodo_def)

lemma ejemplo_fs_calles: "ejemplo_fs ''calles.json'' = Some ejemplo"
  by (simp add: ejemplo_fs_def)

lemma ejemplo_fs_antipoda: "ejemplo_fs ''antipoda.json'' = Some antipoda"
  by (simp add: ejemplo_fs_def)

lemma ejemplo_muestra_2:
  "snd (crear_muestra_calles ejemplo_fs ''calles.json'' ''muestra.json'' 2 rnd_cero) ''muestra.json''
     = Some (muestra_calles ejemplo 2 [nodo 1 0 0, nodo 3 0 180])"
  by (rule crear_muestra_calles_escribe
        [where fs = ejemplo_fs and archivo_original = "''calles.json''" and data = ejemplo,
         OF ejemplo_fs_calles ejemplo_sample2])

lemma ejemplo_muestra_2_edges:
  "edges (muestra_calles ejemplo 2 [nodo 1 0 0, nodo 3 0 180]) = [arista 1 3]"
  by (simp add: edges_muestra_calles ids_nodos_def ejemplo_def nodo_def arista_def)

lemma ejemplo_centro_5:
  "snd (crear_muestra_centro exacta ejemplo_fs ''calles.json'' ''centro.json'' 0 0 5) ''centro.json''
     = Some (muestra_centro ejemplo 0 0 5 [nodo 1 0 0, nodo 2 0 (1 / 100)])"
  using crear_muestra_centro_exacta
    [where fs = ejemplo_fs and archivo_original = "''calles.json''" and data = ejemplo
       and archivo_muestra = "''centro.json''" and centro_lat = 0 and centro_lon = 0
       and radio_km = 5, OF ejemplo_fs_calles]
  by (simp only: ejemplo_radio5)

lemma ejemplo_centro_5_edges:
  "edges (muestra_centro ejemplo 0 0 5 [nodo 1 0 0, nodo 2 0 (1 / 100)]) = [arista 1 2]"
  by (simp add: edges_muestra_centro ids_nodos_def ejemplo_def nodo_def arista_def)

lemma antipoda_radio5:
  "filter (\<lambda>n. great_circle_distance exacta 0 0 (lat n) (lon n) \<le> 5 * 1000) (nodes antipoda) = []"
  using ejemplo_dist by (simp add: antipoda_def nodo_def)

lemma ejemplo_radio_medio:
  "filter (\<lambda>n. great_circle_distance exacta 0 0 (lat n) (lon n) \<le> (1 / 2) * 1000) (nodes ejemplo)
     = [nodo 1 0 0]"
proof -
  have "great_circle_distance exacta 0 0 0 (1 / 100) = 6371000 * ((1 / 100) * pi / 180)"
    by (rule equator_distance) simp_all
  then have b: "\<not> great_circle_distance exacta 0 0 0 (1 / 100) \<le> 500"
    using pi_ge_two by simp
  have z: "\<not> great_circle_distance exacta 0 0 0 180 \<le> 500"
    using pi_ge_two by (simp add: great_circle_distance_antipode)
  show ?thesis
    using b z by (simp add: ejemplo_def nodo_def great_circle_distance_same)
qed


lemma crear_muestra_calles_vacia:
  assumes "fs archivo_original = Some data"
    and "random_sample rnd (nodes data) (min max_nodos (int (length (nodes data)))) = Inr []"
  shows "crear_muestra_calles fs archivo_original archivo_muestra max_nodos rnd
           = (Inl ZeroDivisionError, fs(archivo_muestra \<mapsto> muestra_calles data max_nodos []))"
  using assms by (simp add: crear_muestra_calles_def Let_def)

lemma crear_muestra_centro_vacia:
  assumes "fs archivo_original = Some data"
    and "filtrar_nodos ar centro_lat centro_lon (fl_mul ar radio_km 1000) (nodes data) [] = Inr []"
  shows "crear_muestra_centro ar fs archivo_original archivo_muestra centro_lat centro_lon radio_km
           = (Inl ZeroDivisionError,
              fs(archivo_muestra \<mapsto> muestra_centro data centro_lat centro_lon radio_km []))"
  using assms by (simp add: crear_muestra_centro_def Let_def)

lemma antipoda_filtrar_5:
  "filtrar_nodos exacta 0 0 (fl_mul exacta 5 1000) (nodes antipoda) [] = Inr []"
  by (simp only: filtrar_nodos_exacta exacta_ops antipoda_radio5 append_Nil)

lemma antipoda_hacia_arriba:
  "crear_muestra_centro hacia_arriba ejemplo_fs ''antipoda.json'' ''centro.json'' 0 0 5
     = (Inl ValueError, ejemplo_fs)"
proof -
  have "filtrar_nodos hacia_arriba 0 0 (fl_mul hacia_arriba 5 1000) (nodes antipoda) []
          = Inl ValueError"
    by (simp add: antipoda_def nodo_def calcular_distancia_hacia_arriba)
  then show ?thesis
    by (rule crear_muestra_centro_falla
          [where fs = ejemplo_fs and archivo_original = "''antipoda.json''" and data = antipoda,
           OF ejemplo_fs_antipoda])
qed

lemma ejemplo_muestra_0:
  "crear_muestra_calles ejemplo_fs ''calles.json'' ''muestra.json'' 0 rnd_cero
     = (Inl ZeroDivisionError, ejemplo_fs(''muestra.json'' \<mapsto> muestra_calles ejemplo 0 []))"
  by (rule crear_muestra_calles_vacia
        [where fs = ejemplo_fs and archivo_original = "''calles.json''" and data = ejemplo,
         OF ejemplo_fs_calles ejemplo_sample0])

lemma antipoda_centro_5:
  "crear_muestra_centro exacta ejemplo_fs ''antipoda.json'' ''centro.json'' 0 0 5
     = (Inl ZeroDivisionError, ejemplo_fs(''centro.json'' \<mapsto> muestra_centro antipoda 0 0 5 []))"
  by (rule crear_muestra_centro_vacia
        [where fs = ejemplo_fs and archivo_original = "''antipoda.json''" and data = antipoda,
         OF ejemplo_fs_antipoda antipoda_filtrar_5])

lemma ejemplo_fs_centro: "ejemplo_fs ''centro.json'' = None"
  by (simp add: ejemplo_fs_def)

lemma ejemplo_centro_5_no_falla:
  "crear_muestra_centro exacta ejemplo_fs ''calles.json'' ''centro.json'' 0 0 5
     \<noteq> (Inl ValueError, ejemplo_fs)"
proof
  assume "crear_muestra_centro exacta ejemplo_fs ''calles.json'' ''centro.json'' 0 0 5
            = (Inl ValueError, ejemplo_fs)"
  then have "snd (crear_muestra_centro exacta ejemplo_fs ''calles.json'' ''centro.json'' 0 0 5)
               ''centro.json'' = ejemplo_fs ''centro.json''"
    by simp
  then show False by (simp only: ejemplo_centro_5 ejemplo_fs_centro) simp
qed

section \<open>The claims\<close>

text \<open>
  C1. Whatever the set of selected identifiers, the edge loop keeps an edge of the input
  exactly when its \<^verbatim>\<open>from\<close> and its \<^verbatim>\<open>to\<close> are both in the set, in the input's order. In
  the dataset either function writes, the set is the identifiers of the written nodes, so
  every written edge has both endpoints among the written nodes. (The radius function
  writes nothing when a distance raises \<^verbatim>\<open>ValueError\<close>.)
\<close>

theorem edges_kept_iff_both_endpoints_selected:
  "filtrar_aristas ids aristas [] = filter (\<lambda>e. edge_from e \<in> ids \<and> edge_to e \<in> ids) aristas
   \<and> (fs archivo_original = Some data \<and> 0 \<le> max_nodos \<longrightarrow>
        (\<exists>d. snd (crear_muestra_calles fs archivo_original archivo_muestra max_nodos rnd)
                 archivo_muestra = Some d
           \<and> edges d = filter (\<lambda>e. edge_from e \<in> ids_nodos (nodes d)
                                    \<and> edge_to e \<in> ids_nodos (nodes d)) (edges data)
           \<and> (\<forall>e \<in> set (edges d). edge_from e \<in> ids_nodos (nodes d)
                                    \<and> edge_to e \<in> ids_nodos (nodes d))))
   \<and> (fs archivo_original = Some data \<longrightarrow>
        crear_muestra_centro ar fs archivo_original archivo_muestra
            centro_lat centro_lon radio_km = (Inl ValueError, fs)
        \<or> (\<exists>d. snd (crear_muestra_centro ar fs archivo_original archivo_muestra
                      centro_lat centro_lon radio_km) archivo_muestra = Some d
           \<and> edges d = filter (\<lambda>e. edge_from e \<in> ids_nodos (nodes d)
                                    \<and> edge_to e \<in> ids_nodos (nodes d)) (edges data)
           \<and> (\<forall>e \<in> set (edges d). edge_from e \<in> ids_nodos (nodes d)
                                    \<and> edge_to e \<in> ids_nodos (nodes d))))"
proof (intro conjI impI)
  show "filtrar_aristas ids aristas [] =
          filter (\<lambda>e. edge_from e \<in> ids \<and> edge_to e \<in> ids) aristas"
    by (simp add: filtrar_aristas_filter)
next
  assume h: "fs archivo_original = Some data \<and> 0 \<le> max_nodos"
  then obtain ns where
    "random_sample rnd (nodes data) (min max_nodos (int (length (nodes data)))) = Inr ns"
    using random_sample_ok [of max_nodos rnd "nodes data"] by blast
  with h have "snd (crear_muestra_calles fs archivo_original archivo_muestra max_nodos rnd)
                 archivo_muestra = Some (muestra_calles data max_nodos ns)"
    by (simp add: crear_muestra_calles_escribe)
  then show "\<exists>d. snd (crear_muestra_calles fs archivo_original archivo_muestra max_nodos rnd)
                 archivo_muestra = Some d
           \<and> edges d = filter (\<lambda>e. edge_from e \<in> ids_nodos (nodes d)
                                    \<and> edge_to e \<in> ids_nodos (nodes d)) (edges data)
           \<and> (\<forall>e \<in> set (edges d). edge_from e \<in> ids_nodos (nodes d)
                                    \<and> edge_to e \<in> ids_nodos (nodes d))"
    by (simp add: edges_muestra_calles nodes_muestra_calles)
next
  assume h: "fs archivo_original = Some data"
  from crear_muestra_centro_casos
    [where fs = fs and archivo_original = archivo_original and data = data, OF h,
     of ar archivo_muestra centro_lat centro_lon radio_km]
  show "crear_muestra_centro ar fs archivo_original archivo_muestra
            centro_lat centro_lon radio_km = (Inl ValueError, fs)
        \<or> (\<exists>d. snd (crear_muestra_centro ar fs archivo_original archivo_muestra
                      centro_lat centro_lon radio_km) archivo_muestra = Some d
           \<and> edges d = filter (\<lambda>e. edge_from e \<in> ids_nodos (nodes d)
                                    \<and> edge_to e \<in> ids_nodos (nodes d)) (edges data)
           \<and> (\<forall>e \<in> set (edges d). edge_from e \<in> ids_nodos (nodes d)
                                    \<and> edge_to e \<in> ids_nodos (nodes d)))"
  proof (elim disjE exE conjE)
    assume "crear_muestra_centro ar fs archivo_original archivo_muestra
              centro_lat centro_lon radio_km = (Inl ValueError, fs)"
    then show ?thesis by (rule disjI1)
  next
    fix ns
    assume "snd (crear_muestra_centro ar fs archivo_original archivo_muestra
                   centro_lat centro_lon radio_km) archivo_muestra
              = Some (muestra_centro data centro_lat centro_lon radio_km ns)"
    then show ?thesis
      by (intro disjI2) (simp add: edges_muestra_centro nodes_muestra_centro)
  qed
qed

theorem edges_kept_iff_both_endpoints_selected_witness:
  "(ejemplo_fs ''calles.json'' = Some ejemplo \<and> (0::int) \<le> 2)
   \<and> (\<exists>d. snd (crear_muestra_calles ejemplo_fs ''calles.json'' ''muestra.json'' 2 rnd_cero)
              ''muestra.json'' = Some d
          \<and> edges d = [arista 1 3]
          \<and> (\<forall>e \<in> set (edges d). edge_from e \<in> ids_nodos (nodes d)
                                   \<and> edge_to e \<in> ids_nodos (nodes d)))
   \<and> (\<exists>d. snd (crear_muestra_centro exacta ejemplo_fs ''calles.json'' ''centro.json'' 0 0 5)
              ''centro.json'' = Some d
          \<and> edges d = [arista 1 2]
          \<and> (\<forall>e \<in> set (edges d). edge_from e \<in> ids_nodos (nodes d)
                                   \<and> edge_to e \<in> ids_nodos (nodes d)))"
proof -
  have h: "ejemplo_fs ''calles.json'' = Some ejemplo \<and> (0::int) \<le> 2"
    by (simp add: ejemplo_fs_calles)
  note t = edges_kept_iff_both_endpoints_selected
    [where fs = ejemplo_fs and archivo_original = "''calles.json''" and data = ejemplo
       and max_nodos = 2 and rnd = rnd_cero and ar = exacta and centro_lat = 0
       and centro_lon = 0 and radio_km = 5]
  from t [where archivo_muestra = "''muestra.json''"] h
  obtain d1 where d1:
    "snd (crear_muestra_calles ejemplo_fs ''calles.json'' ''muestra.json'' 2 rnd_cero)
       ''muestra.json'' = Some d1"
    "\<forall>e \<in> set (edges d1). edge_from e \<in> ids_nodos (nodes d1) \<and> edge_to e \<in> ids_nodos (nodes d1)"
    by blast
  from t [where archivo_muestra = "''centro.json''"] h ejemplo_centro_5_no_falla
  obtain d2 where d2:
    "snd (crear_muestra_centro exacta ejemplo_fs ''calles.json'' ''centro.json'' 0 0 5)
       ''centro.json'' = Some d2"
    "\<forall>e \<in> set (edges d2). edge_from e \<in> ids_nodos (nodes d2) \<and> edge_to e \<in> ids_nodos (nodes d2)"
    by blast
  have e1: "edges d1 = [arista 1 3]"
    using d1(1) ejemplo_muestra_2_edges by (simp only: ejemplo_muestra_2 option.inject)
  have e2: "edges d2 = [arista 1 2]"
    using d2(1) ejemplo_centro_5_edges by (simp only: ejemplo_centro_5 option.inject)
  from h d1 d2 e1 e2 show ?thesis by blast
qed

text \<open>
  C2. In the dataset either function writes, the metadata entry \<^verbatim>\<open>total_nodes\<close> is the
  length of the written node list and \<^verbatim>\<open>total_edges\<close> the length of the written edge
  list, whatever the metadata of the input says. (The radius function writes nothing when
  a distance raises \<^verbatim>\<open>ValueError\<close>.)
\<close>

theorem metadata_counts_are_list_lengths:
  "(fs archivo_original = Some data \<and> 0 \<le> max_nodos \<longrightarrow>
      (\<exists>d. snd (crear_muestra_calles fs archivo_original archivo_muestra max_nodos rnd)
               archivo_muestra = Some d
         \<and> map_of (metadata d) ''total_nodes'' = Some (JInt (int (length (nodes d))))
         \<and> map_of (metadata d) ''total_edges'' = Some (JInt (int (length (edges d))))))
   \<and> (fs archivo_original = Some data \<longrightarrow>
      crear_muestra_centro ar fs archivo_original archivo_muestra
          centro_lat centro_lon radio_km = (Inl ValueError, fs)
      \<or> (\<exists>d. snd (crear_muestra_centro ar fs archivo_original archivo_muestra
                    centro_lat centro_lon radio_km) archivo_muestra = Some d
         \<and> map_of (metadata d) ''total_nodes'' = Some (JInt (int (length (nodes d))))
         \<and> map_of (metadata d) ''total_edges'' = Some (JInt (int (length (edges d))))))"
proof (intro conjI impI)
  assume h: "fs archivo_original = Some data \<and> 0 \<le> max_nodos"
  then obtain ns where
    "random_sample rnd (nodes data) (min max_nodos (int (length (nodes data)))) = Inr ns"
    using random_sample_ok [of max_nodos rnd "nodes data"] by blast
  with h have "snd (crear_muestra_calles fs archivo_original archivo_muestra max_nodos rnd)
                 archivo_muestra = Some (muestra_calles data max_nodos ns)"
    by (simp add: crear_muestra_calles_escribe)
  then show "\<exists>d. snd (crear_muestra_calles fs archivo_original archivo_muestra max_nodos rnd)
               archivo_muestra = Some d
         \<and> map_of (metadata d) ''total_nodes'' = Some (JInt (int (length (nodes d))))
         \<and> map_of (metadata d) ''total_edges'' = Some (JInt (int (length (edges d))))"
    using counts_muestra_calles [of data max_nodos ns] by blast
next
  assume h: "fs archivo_original = Some data"
  from crear_muestra_centro_casos
    [where fs = fs and archivo_original = archivo_original and data = data, OF h,
     of ar archivo_muestra centro_lat centro_lon radio_km]
  show "crear_muestra_centro ar fs archivo_original archivo_muestra
          centro_lat centro_lon radio_km = (Inl ValueError, fs)
      \<or> (\<exists>d. snd (crear_muestra_centro ar fs archivo_original archivo_muestra
                    centro_lat centro_lon radio_km) archivo_muestra = Some d
         \<and> map_of (metadata d) ''total_nodes'' = Some (JInt (int (length (nodes d))))
         \<and> map_of (metadata d) ''total_edges'' = Some (JInt (int (length (edges d)))))"
  proof (elim disjE exE conjE)
    assume "crear_muestra_centro ar fs archivo_original archivo_muestra
              centro_lat centro_lon radio_km = (Inl ValueError, fs)"
    then show ?thesis by (rule disjI1)
  next
    fix ns
    assume "snd (crear_muestra_centro ar fs archivo_original archivo_muestra
                   centro_lat centro_lon radio_km) archivo_muestra
              = Some (muestra_centro data centro_lat centro_lon radio_km ns)"
    then show ?thesis
      using counts_muestra_centro [of data centro_lat centro_lon radio_km ns]
      by (intro disjI2) blast
  qed
qed

theorem metadata_counts_are_list_lengths_witness:
  "(ejemplo_fs ''calles.json'' = Some ejemplo \<and> (0::int) \<le> 2)
   \<and> map_of (metadata ejemplo) ''total_nodes'' = Some (JInt 3)
   \<and> (\<exists>d. snd (crear_muestra_calles ejemplo_fs ''calles.json'' ''muestra.json'' 2 rnd_cero)
              ''muestra.json'' = Some d
          \<and> length (nodes d) = 2 \<and> length (edges d) = 1
          \<and> map_of (metadata d) ''total_nodes'' = Some (JInt (int (length (nodes d))))
          \<and> map_of (metadata d) ''total_edges'' = Some (JInt (int (length (edges d)))))
   \<and> (\<exists>d. snd (crear_muestra_centro exacta ejemplo_fs ''calles.json'' ''centro.json'' 0 0 5)
              ''centro.json'' = Some d
          \<and> length (nodes d) = 2 \<and> length (edges d) = 1
          \<and> map_of (metadata d) ''total_nodes'' = Some (JInt (int (length (nodes d))))
          \<and> map_of (metadata d) ''total_edges'' = Some (JInt (int (length (edges d)))))"
proof -
  have h: "ejemplo_fs ''calles.json'' = Some ejemplo \<and> (0::int) \<le> 2"
    by (simp add: ejemplo_fs_calles)
  have m: "map_of (metadata ejemplo) ''total_nodes'' = Some (JInt 3)"
    by (simp add: ejemplo_def)
  note t = metadata_counts_are_list_lengths
    [where fs = ejemplo_fs and archivo_original = "''calles.json''" and data = ejemplo
       and max_nodos = 2 and rnd = rnd_cero and ar = exacta and centro_lat = 0
       and centro_lon = 0 and radio_km = 5]
  from t [where archivo_muestra = "''muestra.json''"] h
  obtain d1 where d1:
    "snd (crear_muestra_calles ejemplo_fs ''calles.json'' ''muestra.json'' 2 rnd_cero)
       ''muestra.json'' = Some d1"
    "map_of (metadata d1) ''total_nodes'' = Some (JInt (int (length (nodes d1))))"
    "map_of (metadata d1) ''total_edges'' = Some (JInt (int (length (edges d1))))"
    by blast
  from t [where archivo_muestra = "''centro.json''"] h ejemplo_centro_5_no_falla
  obtain d2 where d2:
    "snd (crear_muestra_centro exacta ejemplo_fs ''calles.json'' ''centro.json'' 0 0 5)
       ''centro.json'' = Some d2"
    "map_of (metadata d2) ''total_nodes'' = Some (JInt (int (length (nodes d2))))"
    "map_of (metadata d2) ''total_edges'' = Some (JInt (int (length (edges d2))))"
    by blast
  have e1: "d1 = muestra_calles ejemplo 2 [nodo 1 0 0, nodo 3 0 180]"
    using d1(1) by (simp only: ejemplo_muestra_2 option.inject)
  have e2: "d2 = muestra_centro ejemplo 0 0 5 [nodo 1 0 0, nodo 2 0 (1 / 100)]"
    using d2(1) by (simp only: ejemplo_centro_5 option.inject)
  have l1: "length (nodes d1) = 2" "length (edges d1) = 1"
    unfolding e1 nodes_muestra_calles ejemplo_muestra_2_edges by simp_all
  have l2: "length (nodes d2) = 2" "length (edges d2) = 1"
    unfolding e2 nodes_muestra_centro ejemplo_centro_5_edges by simp_all
  from h m d1 d2 l1 l2 show ?thesis by blast
qed

text \<open>
  C3. As stated the claim fails for a negative \<^verbatim>\<open>max_nodos\<close>: the sample size
  \<open>min(max_nodos, len(nodes))\<close> is then negative and \<^verbatim>\<open>random.sample\<close> raises.
\<close>

theorem sampler_negative_size_counterexample:
  "random_sample rnd_cero (nodes ejemplo) (min (- 1) (int (length (nodes ejemplo))))
     = Inl ValueError"
  by (simp add: random_sample_def)

text \<open>
  C3, amended. For every node list, every generator and every \<^verbatim>\<open>max_nodos\<close> that is not
  negative, the sampling step returns a list of exactly \<open>min(max_nodos, len(nodes))\<close> nodes
  that uses no position of the input twice (a sub-multiset of the input); when
  \<^verbatim>\<open>max_nodos\<close> is at least the number of nodes, the result is all the input nodes, and
  no error is raised.
\<close>

theorem sampler_returns_min_nodes:
  assumes "0 \<le> max_nodos"
  shows "\<exists>ns. random_sample rnd nodos (min max_nodos (int (length nodos))) = Inr ns \<and>
              int (length ns) = min max_nodos (int (length nodos)) \<and>
              mset ns \<subseteq># mset nodos \<and>
              (int (length nodos) \<le> max_nodos \<longrightarrow> mset ns = mset nodos)"
  using assms by (rule random_sample_ok)

theorem sampler_returns_min_nodes_witness:
  "(0::int) \<le> 5
   \<and> (\<exists>ns. random_sample rnd_cero (nodes ejemplo) (min 5 (int (length (nodes ejemplo)))) = Inr ns \<and>
            int (length ns) = min 5 (int (length (nodes ejemplo))) \<and>
            mset ns \<subseteq># mset (nodes ejemplo) \<and>
            (int (length (nodes ejemplo)) \<le> 5 \<longrightarrow> mset ns = mset (nodes ejemplo)))
   \<and> int (length (nodes ejemplo)) \<le> 5"
proof -
  have h: "(0::int) \<le> 5" by simp
  have l: "int (length (nodes ejemplo)) \<le> 5" by (simp add: ejemplo_def)
  from sampler_returns_min_nodes [OF h, of rnd_cero "nodes ejemplo"] h l
  show ?thesis by blast
qed

text \<open>
  C10. With a negative \<^verbatim>\<open>max_nodos\<close> the run ends in an error and leaves the file system
  as it was; when the input file can be read, the error is the \<^verbatim>\<open>ValueError\<close> of the
  sampling step.
\<close>

theorem negative_max_nodos_raises_before_write:
  assumes "max_nodos < 0"
  shows "(\<exists>e. crear_muestra_calles fs archivo_original archivo_muestra max_nodos rnd = (Inl e, fs))
         \<and> (fs archivo_original = Some data \<longrightarrow>
              crear_muestra_calles fs archivo_original archivo_muestra max_nodos rnd
                = (Inl ValueError, fs))"
  using assms
  by (cases "fs archivo_original")
     (simp_all add: crear_muestra_calles_def Let_def random_sample_def)

theorem negative_max_nodos_raises_before_write_witness:
  "((- 1 :: int) < 0 \<and> ejemplo_fs ''calles.json'' = Some ejemplo)
   \<and> crear_muestra_calles ejemplo_fs ''calles.json'' ''muestra.json'' (- 1) rnd_cero
        = (Inl ValueError, ejemplo_fs)
   \<and> ejemplo_fs ''muestra.json'' = None"
proof -
  have h: "(- 1 :: int) < 0" by simp
  have f: "ejemplo_fs ''calles.json'' = Some ejemplo" by (rule ejemplo_fs_calles)
  have n: "ejemplo_fs ''muestra.json'' = None" by (simp add: ejemplo_fs_def)
  from negative_max_nodos_raises_before_write
    [OF h, where fs = ejemplo_fs and archivo_original = "''calles.json''" and data = ejemplo
       and archivo_muestra = "''muestra.json''" and rnd = rnd_cero] h f n
  show ?thesis by blast
qed



text \<open>
  C9. For radii \<open>r1 < r2\<close> and the same centre, in an arithmetic whose multiplication by
  1000 is monotone, the two runs of the node loop raise together or return together, and
  the nodes retained at \<open>r1\<close> are among those retained at \<open>r2\<close>, as a sub-list.
\<close>

theorem radius_filter_monotone:
  assumes "r1 < r2"
    and "\<forall>x y. x \<le> y \<longrightarrow> fl_mul ar x 1000 \<le> fl_mul ar y 1000"
  shows "(filtrar_nodos ar centro_lat centro_lon (fl_mul ar r1 1000) nodos [] = Inl ValueError
            \<and> filtrar_nodos ar centro_lat centro_lon (fl_mul ar r2 1000) nodos [] = Inl ValueError)
         \<or> (\<exists>s1 s2. filtrar_nodos ar centro_lat centro_lon (fl_mul ar r1 1000) nodos [] = Inr s1
                \<and> filtrar_nodos ar centro_lat centro_lon (fl_mul ar r2 1000) nodos [] = Inr s2
                \<and> set s1 \<subseteq> set s2
                \<and> s1 = filter (\<lambda>n. n \<in> set s1) s2)"
proof (cases "\<forall>n \<in> set nodos.
                \<exists>d. calcular_distancia ar centro_lat centro_lon (lat n) (lon n) = Inr d")
  case False
  then show ?thesis by (simp only: filtrar_nodos_spec if_False simp_thms)
next
  case True
  let ?P = "\<lambda>r n. \<exists>d. calcular_distancia ar centro_lat centro_lon (lat n) (lon n) = Inr d
                      \<and> d \<le> fl_mul ar r 1000"
  have m: "fl_mul ar r1 1000 \<le> fl_mul ar r2 1000" using assms by simp
  have imp: "?P r1 n \<Longrightarrow> ?P r2 n" for n :: "'a node" using m by fastforce
  have sub: "set (filter (?P r1) nodos) \<subseteq> set (filter (?P r2) nodos)"
    using imp by auto
  have "filter (\<lambda>n. n \<in> set (filter (?P r1) nodos)) (filter (?P r2) nodos)
          = filter (\<lambda>n. ?P r2 n \<and> n \<in> set (filter (?P r1) nodos)) nodos"
    by (simp add: conj_commute)
  also have "\<dots> = filter (?P r1) nodos"
    using imp by (intro filter_cong) auto
  finally have seq: "filter (?P r1) nodos
                       = filter (\<lambda>n. n \<in> set (filter (?P r1) nodos)) (filter (?P r2) nodos)"
    by simp
  have f1: "filtrar_nodos ar centro_lat centro_lon (fl_mul ar r1 1000) nodos []
              = Inr (filter (?P r1) nodos)"
    by (simp only: filtrar_nodos_spec if_P [OF True] append_Nil)
  have f2: "filtrar_nodos ar centro_lat centro_lon (fl_mul ar r2 1000) nodos []
              = Inr (filter (?P r2) nodos)"
    by (simp only: filtrar_nodos_spec if_P [OF True] append_Nil)
  from f1 f2 sub seq show ?thesis by blast
qed

theorem radius_filter_monotone_witness:
  "((1 / 2 :: real) < 5 \<and> fl_mul exacta (1 / 2) 1000 \<le> fl_mul exacta 5 1000)
   \<and> (\<exists>s1 s2. filtrar_nodos exacta 0 0 (fl_mul exacta (1 / 2) 1000) (nodes ejemplo) [] = Inr s1
             \<and> filtrar_nodos exacta 0 0 (fl_mul exacta 5 1000) (nodes ejemplo) [] = Inr s2
             \<and> set s1 \<subseteq> set s2
             \<and> s1 = filter (\<lambda>n. n \<in> set s1) s2)
   \<and> filtrar_nodos exacta 0 0 (fl_mul exacta (1 / 2) 1000) (nodes ejemplo) [] = Inr [nodo 1 0 0]
   \<and> filtrar_nodos exacta 0 0 (fl_mul exacta 5 1000) (nodes ejemplo) []
       = Inr [nodo 1 0 0, nodo 2 0 (1 / 100)]"
proof -
  have h: "(1 / 2 :: real) < 5" by simp
  have mono: "\<forall>x y. x \<le> y \<longrightarrow> fl_mul exacta x 1000 \<le> fl_mul exacta y 1000"
    by (simp add: exacta_ops)
  have m: "fl_mul exacta (1 / 2) 1000 \<le> fl_mul exacta 5 1000" by (simp add: exacta_ops)
  have a: "filtrar_nodos exacta 0 0 (fl_mul exacta (1 / 2) 1000) (nodes ejemplo) []
             = Inr [nodo 1 0 0]"
    by (simp only: filtrar_nodos_exacta exacta_ops ejemplo_radio_medio append_Nil)
  have b: "filtrar_nodos exacta 0 0 (fl_mul exacta 5 1000) (nodes ejemplo) []
             = Inr [nodo 1 0 0, nodo 2 0 (1 / 100)]"
    by (simp only: filtrar_nodos_exacta exacta_ops ejemplo_radio5 append_Nil)
  from radius_filter_monotone [OF h mono, of 0 0 "nodes ejemplo"] a b
  have "\<exists>s1 s2. filtrar_nodos exacta 0 0 (fl_mul exacta (1 / 2) 1000) (nodes ejemplo) [] = Inr s1
             \<and> filtrar_nodos exacta 0 0 (fl_mul exacta 5 1000) (nodes ejemplo) [] = Inr s2
             \<and> set s1 \<subseteq> set s2
             \<and> s1 = filter (\<lambda>n. n \<in> set s1) s2"
    by (simp only: sum.distinct simp_thms)
  with h m a b show ?thesis by (simp only: simp_thms)
qed

text \<open>
  C8. In an arithmetic with the laws above, \<^verbatim>\<open>calcular_distancia\<close> raises \<^verbatim>\<open>ValueError\<close> when the
  computed haversine term is negative or its computed root is outside \<open>[-1, 1]\<close>, and
  otherwise returns the haversine formula \<open>2 \<sqdot> R \<sqdot> asin(\<surd>a)\<close> on a sphere of radius 6371000
  metres, with the degrees converted to radians. The distance from a point to itself is
  0, and the result is the same in both directions.
\<close>

theorem distance_is_haversine_zero_symmetric:
  assumes "leyes_aritmetica ar"
  shows "calcular_distancia ar lat1 lon1 lat2 lon2 =
           (if haversine_a ar lat1 lon1 lat2 lon2 < 0
               \<or> fl_sqrt ar (haversine_a ar lat1 lon1 lat2 lon2) < - 1
               \<or> 1 < fl_sqrt ar (haversine_a ar lat1 lon1 lat2 lon2)
            then Inl ValueError
            else Inr (great_circle_distance ar lat1 lon1 lat2 lon2))
         \<and> calcular_distancia ar lat1 lon1 lat1 lon1 = Inr 0
         \<and> calcular_distancia ar lat1 lon1 lat2 lon2 = calcular_distancia ar lat2 lon2 lat1 lon1"
proof (intro conjI)
  show "calcular_distancia ar lat1 lon1 lat2 lon2 =
           (if haversine_a ar lat1 lon1 lat2 lon2 < 0
               \<or> fl_sqrt ar (haversine_a ar lat1 lon1 lat2 lon2) < - 1
               \<or> 1 < fl_sqrt ar (haversine_a ar lat1 lon1 lat2 lon2)
            then Inl ValueError
            else Inr (great_circle_distance ar lat1 lon1 lat2 lon2))"
    using assms by (rule calcular_distancia_spec)
  show "calcular_distancia ar lat1 lon1 lat1 lon1 = Inr 0"
    using assms by (rule calcular_distancia_mismo)
  show "calcular_distancia ar lat1 lon1 lat2 lon2 = calcular_distancia ar lat2 lon2 lat1 lon1"
    using assms by (rule calcular_distancia_simetrica)
qed

theorem distance_is_haversine_zero_symmetric_witness:
  "leyes_aritmetica exacta
   \<and> calcular_distancia exacta 0 0 0 180 = Inr (6371000 * pi)
   \<and> calcular_distancia exacta 0 180 0 180 = Inr 0
   \<and> calcular_distancia exacta 0 0 0 180 = calcular_distancia exacta 0 180 0 0"
proof -
  note t = distance_is_haversine_zero_symmetric [OF leyes_exacta]
  have a: "haversine_a exacta 0 0 0 180 = 1"
    by (simp add: haversine_a_exacta)
  have c: "\<not> (haversine_a exacta 0 0 0 180 < 0
               \<or> fl_sqrt exacta (haversine_a exacta 0 0 0 180) < - 1
               \<or> 1 < fl_sqrt exacta (haversine_a exacta 0 0 0 180))"
    by (simp add: a exacta_ops)
  from t [of 0 0 0 180, THEN conjunct1]
  have d: "calcular_distancia exacta 0 0 0 180 = Inr (6371000 * pi)"
    by (simp only: c if_False great_circle_distance_antipode)
  from t [of 0 180 0 180, THEN conjunct2, THEN conjunct1]
  have z: "calcular_distancia exacta 0 180 0 180 = Inr 0" .
  from t [of 0 0 0 180, THEN conjunct2, THEN conjunct2]
  have s: "calcular_distancia exacta 0 0 0 180 = calcular_distancia exacta 0 180 0 0" .
  from leyes_exacta d z s show ?thesis by (simp only: simp_thms)
qed

text \<open>
  C5. The division that computes the density has no guard. A run whose selection is
  empty ends in \<^verbatim>\<open>ZeroDivisionError\<close>: the random sample of size 0, and the radius of 5 km
  around a centre whose only intersection lies at the antipode (there the haversine term
  is 1 and the distance \<open>6371000 \<sqdot> \<pi>\<close> metres, in the exact arithmetic).
\<close>

theorem density_division_unguarded:
  "fst (crear_muestra_calles ejemplo_fs ''calles.json'' ''muestra.json'' 0 rnd_cero)
     = Inl ZeroDivisionError
   \<and> fst (crear_muestra_centro exacta ejemplo_fs ''antipoda.json'' ''centro.json'' 0 0 5)
     = Inl ZeroDivisionError"
  by (simp only: ejemplo_muestra_0 antipoda_centro_5 fst_conv simp_thms)

text \<open>
  C6. On the same two runs the empty dataset, with both counts 0, has been written when
  the error is raised: the run does not complete.
\<close>

theorem empty_selection_written_then_raises:
  "crear_muestra_calles ejemplo_fs ''calles.json'' ''muestra.json'' 0 rnd_cero
     = (Inl ZeroDivisionError,
        ejemplo_fs(''muestra.json'' \<mapsto>
          \<lparr> description = Muestra_de_nodos 0, nodes = [], edges = [],
            metadata =
              [(''city'', JStr culiacan),
               (''source'', JStr ''OpenStreetMap via OSMnx''),
               (''extracted_date'', JStr ''2024-01-15''),
               (''total_nodes'', JInt 0),
               (''total_edges'', JInt 0),
               (''network_type'', JStr ''drive''),
               (''sample_size'', JInt 0),
               (''original_nodes'', JInt 3),
               (''original_edges'', JInt 3)] \<rparr>))
   \<and> crear_muestra_centro exacta ejemplo_fs ''antipoda.json'' ''centro.json'' 0 0 5
     = (Inl ZeroDivisionError,
        ejemplo_fs(''centro.json'' \<mapsto>
          \<lparr> description = Muestra_centrada 0 0 5, nodes = [], edges = [],
            metadata =
              [(''city'', JStr culiacan),
               (''source'', JStr ''OpenStreetMap via OSMnx''),
               (''extracted_date'', JStr ''2024-01-15''),
               (''total_nodes'', JInt 0),
               (''total_edges'', JInt 0),
               (''network_type'', JStr ''drive''),
               (''center_lat'', JFloat 0),
               (''center_lon'', JFloat 0),
               (''radius_km'', JFloat 5),
               (''original_nodes'', JInt 1),
               (''original_edges'', JInt 0)] \<rparr>))"
proof -
  have a: "muestra_calles ejemplo 0 [] =
          \<lparr> description = Muestra_de_nodos 0, nodes = [], edges = [],
            metadata =
              [(''city'', JStr culiacan),
               (''source'', JStr ''OpenStreetMap via OSMnx''),
               (''extracted_date'', JStr ''2024-01-15''),
               (''total_nodes'', JInt 0),
               (''total_edges'', JInt 0),
               (''network_type'', JStr ''drive''),
               (''sample_size'', JInt 0),
               (''original_nodes'', JInt 3),
               (''original_edges'', JInt 3)] \<rparr>"
    by (simp add: muestra_calles_def Let_def ids_nodos_def ejemplo_def)
  have b: "muestra_centro antipoda 0 0 5 [] =
          \<lparr> description = Muestra_centrada 0 0 5, nodes = [], edges = [],
            metadata =
              [(''city'', JStr culiacan),
               (''source'', JStr ''OpenStreetMap via OSMnx''),
               (''extracted_date'', JStr ''2024-01-15''),
               (''total_nodes'', JInt 0),
               (''total_edges'', JInt 0),
               (''network_type'', JStr ''drive''),
               (''center_lat'', JFloat 0),
               (''center_lon'', JFloat 0),
               (''radius_km'', JFloat 5),
               (''original_nodes'', JInt 1),
               (''original_edges'', JInt 0)] \<rparr>"
    by (simp add: muestra_centro_def Let_def ids_nodos_def antipoda_def)
  show ?thesis
    by (simp only: ejemplo_muestra_0 antipoda_centro_5 a b simp_thms)
qed

text \<open>
  C7. As stated the claim fails: the functions never read the metadata of the input. For
  a network of another city, the \<^verbatim>\<open>city\<close> of the written sample is not the \<^verbatim>\<open>city\<close> of the
  original.
\<close>

theorem static_fields_not_carried_over_counterexample:
  "snd (crear_muestra_calles ejemplo_fs ''calles.json'' ''muestra.json'' 2 rnd_cero) ''muestra.json''
     = Some (muestra_calles ejemplo 2 [nodo 1 0 0, nodo 3 0 180])
   \<and> map_of (metadata ejemplo) ''city'' = Some (JStr ''Mazatlan, Sinaloa, Mexico'')
   \<and> map_of (metadata (muestra_calles ejemplo 2 [nodo 1 0 0, nodo 3 0 180])) ''city''
       = Some (JStr culiacan)
   \<and> map_of (metadata (muestra_calles ejemplo 2 [nodo 1 0 0, nodo 3 0 180])) ''city''
       \<noteq> map_of (metadata ejemplo) ''city''"
proof -
  have m: "map_of (metadata ejemplo) ''city'' = Some (JStr ''Mazatlan, Sinaloa, Mexico'')"
    by (simp add: ejemplo_def)
  have c: "map_of (metadata (muestra_calles ejemplo 2 [nodo 1 0 0, nodo 3 0 180])) ''city''
       = Some (JStr culiacan)"
    by (rule static_muestra_calles)
  have n: "culiacan \<noteq> ''Mazatlan, Sinaloa, Mexico''"
    by (simp add: culiacan_def)
  show ?thesis
    using n by (simp only: ejemplo_muestra_2 m c option.inject jvalue.inject simp_thms)
qed

text \<open>
  C7, amended. In the dataset either function writes, the static fields are the literals
  of the script: \<^verbatim>\<open>city\<close> is the string \<open>culiacan\<close>, \<^verbatim>\<open>source\<close> is OpenStreetMap via
  OSMnx, \<^verbatim>\<open>network_type\<close> is drive and \<^verbatim>\<open>extracted_date\<close> is 2024-01-15, whatever the
  metadata of the input; the counts are recomputed and the selection parameters are
  recorded next to them. (The radius function writes nothing when a distance raises
  \<^verbatim>\<open>ValueError\<close>.)
\<close>

theorem static_fields_are_script_literals:
  "(fs archivo_original = Some data \<and> 0 \<le> max_nodos \<longrightarrow>
      (\<exists>d. snd (crear_muestra_calles fs archivo_original archivo_muestra max_nodos rnd)
               archivo_muestra = Some d
         \<and> map_of (metadata d) ''city'' = Some (JStr culiacan)
         \<and> map_of (metadata d) ''source'' = Some (JStr ''OpenStreetMap via OSMnx'')
         \<and> map_of (metadata d) ''network_type'' = Some (JStr ''drive'')
         \<and> map_of (metadata d) ''extracted_date'' = Some (JStr ''2024-01-15'')
         \<and> map_of (metadata d) ''total_nodes'' = Some (JInt (int (length (nodes d))))
         \<and> map_of (metadata d) ''total_edges'' = Some (JInt (int (length (edges d))))
         \<and> map_of (metadata d) ''sample_size'' = Some (JInt max_nodos)
         \<and> map_of (metadata d) ''original_nodes'' = Some (JInt (int (length (nodes data))))
         \<and> map_of (metadata d) ''original_edges'' = Some (JInt (int (length (edges data))))))
   \<and> (fs archivo_original = Some data \<longrightarrow>
      crear_muestra_centro ar fs archivo_original archivo_muestra
          centro_lat centro_lon radio_km = (Inl ValueError, fs)
      \<or> (\<exists>d. snd (crear_muestra_centro ar fs archivo_original archivo_muestra
                    centro_lat centro_lon radio_km) archivo_muestra = Some d
         \<and> map_of (metadata d) ''city'' = Some (JStr culiacan)
         \<and> map_of (metadata d) ''source'' = Some (JStr ''OpenStreetMap via OSMnx'')
         \<and> map_of (metadata d) ''network_type'' = Some (JStr ''drive'')
         \<and> map_of (metadata d) ''extracted_date'' = Some (JStr ''2024-01-15'')
         \<and> map_of (metadata d) ''total_nodes'' = Some (JInt (int (length (nodes d))))
         \<and> map_of (metadata d) ''total_edges'' = Some (JInt (int (length (edges d))))
         \<and> map_of (metadata d) ''center_lat'' = Some (JFloat centro_lat)
         \<and> map_of (metadata d) ''center_lon'' = Some (JFloat centro_lon)
         \<and> map_of (metadata d) ''radius_km'' = Some (JFloat radio_km)))"
proof (intro conjI impI)
  assume h: "fs archivo_original = Some data \<and> 0 \<le> max_nodos"
  then obtain ns where
    "random_sample rnd (nodes data) (min max_nodos (int (length (nodes data)))) = Inr ns"
    using random_sample_ok [of max_nodos rnd "nodes data"] by blast
  with h have w: "snd (crear_muestra_calles fs archivo_original archivo_muestra max_nodos rnd)
                 archivo_muestra = Some (muestra_calles data max_nodos ns)"
    by (simp add: crear_muestra_calles_escribe)
  show "\<exists>d. snd (crear_muestra_calles fs archivo_original archivo_muestra max_nodos rnd)
               archivo_muestra = Some d
         \<and> map_of (metadata d) ''city'' = Some (JStr culiacan)
         \<and> map_of (metadata d) ''source'' = Some (JStr ''OpenStreetMap via OSMnx'')
         \<and> map_of (metadata d) ''network_type'' = Some (JStr ''drive'')
         \<and> map_of (metadata d) ''extracted_date'' = Some (JStr ''2024-01-15'')
         \<and> map_of (metadata d) ''total_nodes'' = Some (JInt (int (length (nodes d))))
         \<and> map_of (metadata d) ''total_edges'' = Some (JInt (int (length (edges d))))
         \<and> map_of (metadata d) ''sample_size'' = Some (JInt max_nodos)
         \<and> map_of (metadata d) ''original_nodes'' = Some (JInt (int (length (nodes data))))
         \<and> map_of (metadata d) ''original_edges'' = Some (JInt (int (length (edges data))))"
    by (intro exI [of _ "muestra_calles data max_nodos ns"] conjI w
          static_muestra_calles counts_muestra_calles params_muestra_calles)
next
  assume h: "fs archivo_original = Some data"
  from crear_muestra_centro_casos
    [where fs = fs and archivo_original = archivo_original and data = data, OF h,
     of ar archivo_muestra centro_lat centro_lon radio_km]
  show "crear_muestra_centro ar fs archivo_original archivo_muestra
          centro_lat centro_lon radio_km = (Inl ValueError, fs)
      \<or> (\<exists>d. snd (crear_muestra_centro ar fs archivo_original archivo_muestra
                    centro_lat centro_lon radio_km) archivo_muestra = Some d
         \<and> map_of (metadata d) ''city'' = Some (JStr culiacan)
         \<and> map_of (metadata d) ''source'' = Some (JStr ''OpenStreetMap via OSMnx'')
         \<and> map_of (metadata d) ''network_type'' = Some (JStr ''drive'')
         \<and> map_of (metadata d) ''extracted_date'' = Some (JStr ''2024-01-15'')
         \<and> map_of (metadata d) ''total_nodes'' = Some (JInt (int (length (nodes d))))
         \<and> map_of (metadata d) ''total_edges'' = Some (JInt (int (length (edges d))))
         \<and> map_of (metadata d) ''center_lat'' = Some (JFloat centro_lat)
         \<and> map_of (metadata d) ''center_lon'' = Some (JFloat centro_lon)
         \<and> map_of (metadata d) ''radius_km'' = Some (JFloat radio_km))"
  proof (elim disjE exE conjE)
    assume "crear_muestra_centro ar fs archivo_original archivo_muestra
              centro_lat centro_lon radio_km = (Inl ValueError, fs)"
    then show ?thesis by (rule disjI1)
  next
    fix ns
    assume w: "snd (crear_muestra_centro ar fs archivo_original archivo_muestra
                   centro_lat centro_lon radio_km) archivo_muestra
              = Some (muestra_centro data centro_lat centro_lon radio_km ns)"
    show ?thesis
      by (intro disjI2 exI [of _ "muestra_centro data centro_lat centro_lon radio_km ns"] conjI w
            static_muestra_centro counts_muestra_centro params_muestra_centro)
  qed
qed

theorem static_fields_are_script_literals_witness:
  "(ejemplo_fs ''calles.json'' = Some ejemplo \<and> (0::int) \<le> 2)
   \<and> (\<exists>d. snd (crear_muestra_calles ejemplo_fs ''calles.json'' ''muestra.json'' 2 rnd_cero)
              ''muestra.json'' = Some d
          \<and> map_of (metadata d) ''city'' = Some (JStr culiacan)
          \<and> map_of (metadata d) ''source'' = Some (JStr ''OpenStreetMap via OSMnx'')
          \<and> map_of (metadata d) ''network_type'' = Some (JStr ''drive'')
          \<and> map_of (metadata d) ''extracted_date'' = Some (JStr ''2024-01-15'')
          \<and> map_of (metadata d) ''sample_size'' = Some (JInt 2))
   \<and> (\<exists>d. snd (crear_muestra_centro exacta ejemplo_fs ''calles.json'' ''centro.json'' 0 0 5)
              ''centro.json'' = Some d
          \<and> map_of (metadata d) ''city'' = Some (JStr culiacan)
          \<and> map_of (metadata d) ''source'' = Some (JStr ''OpenStreetMap via OSMnx'')
          \<and> map_of (metadata d) ''network_type'' = Some (JStr ''drive'')
          \<and> map_of (metadata d) ''extracted_date'' = Some (JStr ''2024-01-15'')
          \<and> map_of (metadata d) ''radius_km'' = Some (JFloat 5))"
proof -
  have h: "ejemplo_fs ''calles.json'' = Some ejemplo \<and> (0::int) \<le> 2"
    by (simp add: ejemplo_fs_calles)
  note t = static_fields_are_script_literals
    [where fs = ejemplo_fs and archivo_original = "''calles.json''" and data = ejemplo
       and max_nodos = 2 and rnd = rnd_cero and ar = exacta and centro_lat = 0
       and centro_lon = 0 and radio_km = 5]
  from t [where archivo_muestra = "''muestra.json''"] h
  have a: "\<exists>d. snd (crear_muestra_calles ejemplo_fs ''calles.json'' ''muestra.json'' 2 rnd_cero)
              ''muestra.json'' = Some d
          \<and> map_of (metadata d) ''city'' = Some (JStr culiacan)
          \<and> map_of (metadata d) ''source'' = Some (JStr ''OpenStreetMap via OSMnx'')
          \<and> map_of (metadata d) ''network_type'' = Some (JStr ''drive'')
          \<and> map_of (metadata d) ''extracted_date'' = Some (JStr ''2024-01-15'')
          \<and> map_of (metadata d) ''sample_size'' = Some (JInt 2)"
    by blast
  from t [where archivo_muestra = "''centro.json''"] h ejemplo_centro_5_no_falla
  have b: "\<exists>d. snd (crear_muestra_centro exacta ejemplo_fs ''calles.json'' ''centro.json'' 0 0 5)
              ''centro.json'' = Some d
          \<and> map_of (metadata d) ''city'' = Some (JStr culiacan)
          \<and> map_of (metadata d) ''source'' = Some (JStr ''OpenStreetMap via OSMnx'')
          \<and> map_of (metadata d) ''network_type'' = Some (JStr ''drive'')
          \<and> map_of (metadata d) ''extracted_date'' = Some (JStr ''2024-01-15'')
          \<and> map_of (metadata d) ''radius_km'' = Some (JFloat 5)"
    by blast
  from h a b show ?thesis by (simp only: simp_thms)
qed

end
